theory Spec2Isabelle
  imports
    Complex_Main
    "HOL-Library.Char_ord"
    "HOL-Library.List_Lexorder"
    "HOL-Library.Product_Lexorder"
begin

section \<open>Python values used by app.py\<close>

text \<open>
  Python \<open>str\<close> values are modelled as \<open>string\<close>; the case functions act on ASCII
  letters only (the identifiers of the dataset are lower-case ASCII with hyphens).
  A finite Python \<open>float\<close> is modelled by the rational number it denotes, so comparisons
  of floats are comparisons of rationals. The float operations of the type-effectiveness
  computation that round (division, multiplication, \<open>round\<close>) and the formatting of a
  float are not fixed by the model: they are parameters, collected in \<open>float_ops\<close>.
\<close>

datatype py_error = KeyError

definition is_lower :: "char \<Rightarrow> bool" where
  "is_lower c = (97 \<le> (of_char c :: nat) \<and> (of_char c :: nat) \<le> 122)"

definition is_upper :: "char \<Rightarrow> bool" where
  "is_upper c = (65 \<le> (of_char c :: nat) \<and> (of_char c :: nat) \<le> 90)"

definition is_cased :: "char \<Rightarrow> bool" where
  "is_cased c = (is_lower c \<or> is_upper c)"

definition lower_char :: "char \<Rightarrow> char" where
  "lower_char c = (if is_upper c then char_of ((of_char c :: nat) + 32) else c)"

definition upper_char :: "char \<Rightarrow> char" where
  "upper_char c = (if is_lower c then char_of ((of_char c :: nat) - 32) else c)"

text \<open>\<open>s.lower()\<close>\<close>
definition lower :: "string \<Rightarrow> string" where
  "lower s = map lower_char s"

text \<open>\<open>s.capitalize()\<close>: first character upper-cased, the rest lower-cased.\<close>
fun capitalize :: "string \<Rightarrow> string" where
  "capitalize [] = []"
| "capitalize (c # cs) = upper_char c # map lower_char cs"

text \<open>
  \<open>s.title()\<close>: a cased character that follows an uncased one (or starts the string) is
  upper-cased, a cased character that follows a cased one is lower-cased.
\<close>
fun title_from :: "bool \<Rightarrow> string \<Rightarrow> string" where
  "title_from prev [] = []"
| "title_from prev (c # cs) =
     (if is_cased c
      then (if prev then lower_char c else upper_char c) # title_from True cs
      else c # title_from False cs)"

definition title :: "string \<Rightarrow> string" where
  "title s = title_from False s"

text \<open>\<open>s.replace(a, b)\<close> for single characters \<open>a\<close> and \<open>b\<close>.\<close>
definition replace :: "char \<Rightarrow> char \<Rightarrow> string \<Rightarrow> string" where
  "replace a b s = map (\<lambda>c. if c = a then b else c) s"

definition newline :: char where
  "newline = char_of (10 :: nat)"

definition formfeed :: char where
  "formfeed = char_of (12 :: nat)"

text \<open>\<open>text.replace("\n", " ").replace("\f", " ")\<close>\<close>
definition strip_breaks :: "string \<Rightarrow> string" where
  "strip_breaks s = replace formfeed CHR '' '' (replace newline CHR '' '' s)"

text \<open>\<open>sep.join(parts)\<close>\<close>
fun join :: "string \<Rightarrow> string list \<Rightarrow> string" where
  "join sep [] = []"
| "join sep [p] = p"
| "join sep (p # q # ps) = p @ sep @ join sep (q # ps)"

definition digit_char :: "nat \<Rightarrow> char" where
  "digit_char d = char_of (48 + d)"

text \<open>\<open>str(n)\<close> for an integer: decimal digits, with a minus sign when negative.\<close>
fun str_nat :: "nat \<Rightarrow> string" where
  "str_nat n = (if n < 10 then [digit_char n] else str_nat (n div 10) @ [digit_char (n mod 10)])"

declare str_nat.simps [simp del]

definition str_int :: "int \<Rightarrow> string" where
  "str_int i = (if i < 0 then CHR ''-'' # str_nat (nat (- i)) else str_nat (nat i))"

text \<open>Truthiness of a nullable integer, a nullable string, and \<open>x or ""\<close>.\<close>
definition truthy_int :: "int option \<Rightarrow> bool" where
  "truthy_int x = (case x of None \<Rightarrow> False | Some n \<Rightarrow> n \<noteq> 0)"

definition truthy_str :: "string option \<Rightarrow> bool" where
  "truthy_str x = (case x of None \<Rightarrow> False | Some s \<Rightarrow> s \<noteq> [])"

definition or_empty :: "string option \<Rightarrow> string" where
  "or_empty x = (case x of None \<Rightarrow> [] | Some s \<Rightarrow> s)"

text \<open>\<open>int(x)\<close> on a float: truncation toward zero.\<close>
definition py_int :: "rat \<Rightarrow> int" where
  "py_int x = (if 0 \<le> x then \<lfloor>x\<rfloor> else \<lceil>x\<rceil>)"

text \<open>
  The float operations of the type-effectiveness computation: \<open>n / 100.0\<close> for an
  integer \<open>n\<close>, the product \<open>x * y\<close>, \<open>round(x, 2)\<close> and the \<open>g\<close> format of a float.
\<close>
record float_ops =
  fl_ratio :: "int \<Rightarrow> rat"
  fl_times :: "rat \<Rightarrow> rat \<Rightarrow> rat"
  fl_round2 :: "rat \<Rightarrow> rat"
  fl_format_g :: "rat \<Rightarrow> string"

text \<open>
  The float literals \<open>1.01\<close> and \<open>0.99\<close>: the binary64 numbers nearest to 101/100 and
  99/100, which are 4548635623644201 / 2^52 and 4458563631096791 / 2^52.
\<close>
definition float_1_01 :: rat where
  "float_1_01 = 4548635623644201 / 4503599627370496"

definition float_0_99 :: rat where
  "float_0_99 = 4458563631096791 / 4503599627370496"

section \<open>Constants of app.py\<close>

definition LANG_EN :: int where
  "LANG_EN = 9"

definition BW_VERSION_GROUP_ID :: int where
  "BW_VERSION_GROUP_ID = 11"

definition LEVELUP_METHOD_ID :: int where
  "LEVELUP_METHOD_ID = 1"

definition MAX_STAT_VIS :: int where
  "MAX_STAT_VIS = 180"

section \<open>describe\_evo\_step\<close>

text \<open>
  A row of the evolution query of \<open>get_pokemon_data\<close>: the species on both sides and the
  trigger columns, every trigger column nullable.
\<close>
record evo_row =
  from_species_id :: "int option"
  from_identifier :: "string option"
  from_name :: "string option"
  to_species_id :: int
  to_identifier :: string
  to_name :: "string option"
  trigger_identifier :: "string option"
  minimum_level :: "int option"
  minimum_happiness :: "int option"
  time_of_day :: "string option"
  item_name :: "string option"
  held_item_name :: "string option"
  known_move_name :: "string option"

definition evo_parts :: "evo_row \<Rightarrow> string list" where
  "evo_parts row =
     (if truthy_int (minimum_level row) then [''Level '' @ str_int (the (minimum_level row))] else [])
   @ (if truthy_str (item_name row) then [''Use '' @ the (item_name row)] else [])
   @ (if truthy_str (held_item_name row) then [''Holding '' @ the (held_item_name row)] else [])
   @ (if truthy_int (minimum_happiness row) then [''High friendship''] else [])
   @ (if truthy_str (known_move_name row) then [''Knows '' @ the (known_move_name row)] else [])
   @ (if or_empty (time_of_day row) \<noteq> [] then [capitalize (or_empty (time_of_day row))] else [])"

definition describe_evo_step :: "evo_row \<Rightarrow> string" where
  "describe_evo_step row =
     (let trigger = or_empty (trigger_identifier row);
          parts = evo_parts row;
          parts' = (if parts = [] \<and> trigger \<noteq> []
                    then parts @ [title (replace CHR ''-'' CHR '' '' trigger)] else parts)
      in join '', '' parts')"

section \<open>The reference dataset\<close>

text \<open>
  The SQLite tables read by app.py, each a list of rows in storage order. The table
  declarations are not part of app.py: a column is nullable exactly where the code allows
  for NULL (a \<open>LEFT JOIN\<close> key, a \<open>COALESCE\<close> argument, a truthiness test), which agrees
  with the data model of the specification. Tables of the same shape share a row type:
  \<open>ident_row\<close> for (id, identifier), \<open>name_row\<close> for the localized names
  (owner id, language id, name); tables read for their ids only are lists of ids.
\<close>

record ident_row =
  row_id :: int
  row_identifier :: string

record name_row =
  nm_id :: int
  nm_lang :: int
  nm_name :: string

record pokemon_row =
  pk_id :: int
  pk_identifier :: string
  pk_species_id :: int
  pk_is_default :: int

record pokemon_form_row =
  pf_id :: int
  pf_pokemon_id :: int

record pokemon_form_name_row =
  pfn_pokemon_form_id :: int
  pfn_local_language_id :: int
  pfn_pokemon_name :: "string option"

record type_efficacy_row =
  damage_type_id :: int
  target_type_id :: int
  damage_factor :: int

record pokemon_stat_row =
  pst_pokemon_id :: int
  pst_stat_id :: int
  pst_base_stat :: int

record pokemon_type_row =
  pt_pokemon_id :: int
  pt_type_id :: int
  pt_slot :: int

record pokemon_ability_row =
  pa_pokemon_id :: int
  pa_ability_id :: int
  pa_is_hidden :: int
  pa_slot :: int

record ability_flavor_text_row =
  aft_ability_id :: int
  aft_version_group_id :: int
  aft_language_id :: int
  aft_flavor_text :: string

record species_row =
  ps_id :: int
  ps_identifier :: string
  ps_evolution_chain_id :: "int option"
  ps_evolves_from_species_id :: "int option"
  ps_growth_rate_id :: "int option"
  ps_capture_rate :: "int option"
  ps_base_happiness :: "int option"
  ps_generation_id :: "int option"

record generation_row =
  g_id :: int
  g_main_region_id :: "int option"

record pokemon_evolution_row =
  e_evolved_species_id :: int
  e_evolution_trigger_id :: "int option"
  e_trigger_item_id :: "int option"
  e_minimum_level :: "int option"
  e_held_item_id :: "int option"
  e_time_of_day :: "string option"
  e_known_move_id :: "int option"
  e_minimum_happiness :: "int option"

record move_row =
  m_id :: int
  m_identifier :: string
  m_type_id :: "int option"
  m_damage_class_id :: "int option"
  m_effect_id :: "int option"
  m_power :: "int option"
  m_accuracy :: "int option"
  m_pp :: "int option"

record move_effect_prose_row =
  mep_move_effect_id :: int
  mep_local_language_id :: int
  mep_short_effect :: "string option"

record pokemon_egg_group_row =
  peg_species_id :: int
  peg_egg_group_id :: int

record species_flavor_text_row =
  sft_species_id :: int
  sft_version_id :: int
  sft_language_id :: int
  sft_flavor_text :: string

record pokemon_move_row =
  pm_pokemon_id :: int
  pm_version_group_id :: int
  pm_move_id :: int
  pm_pokemon_move_method_id :: int
  pm_level :: int

record encounter_row =
  en_version_id :: int
  en_location_area_id :: int
  en_pokemon_id :: int

record location_area_row =
  la_id :: int
  la_location_id :: int

record db =
  pokemon :: "pokemon_row list"
  pokemon_forms :: "pokemon_form_row list"
  pokemon_form_names :: "pokemon_form_name_row list"
  pokemon_species :: "species_row list"
  pokemon_species_names :: "name_row list"
  pokemon_species_flavor_text :: "species_flavor_text_row list"
  pokemon_stats :: "pokemon_stat_row list"
  stats :: "ident_row list"
  stat_names :: "name_row list"
  pokemon_types :: "pokemon_type_row list"
  types :: "ident_row list"
  type_names :: "name_row list"
  type_efficacy :: "type_efficacy_row list"
  pokemon_abilities :: "pokemon_ability_row list"
  abilities :: "ident_row list"
  ability_names :: "name_row list"
  ability_flavor_text :: "ability_flavor_text_row list"
  growth_rates :: "ident_row list"
  growth_rate_prose :: "name_row list"
  generations :: "generation_row list"
  generation_names :: "name_row list"
  regions :: "int list"
  region_names :: "name_row list"
  pokemon_evolution :: "pokemon_evolution_row list"
  evolution_triggers :: "ident_row list"
  items :: "int list"
  item_names :: "name_row list"
  moves :: "move_row list"
  move_names :: "name_row list"
  move_damage_classes :: "ident_row list"
  move_damage_class_prose :: "name_row list"
  move_effect_prose :: "move_effect_prose_row list"
  pokemon_moves :: "pokemon_move_row list"
  pokemon_egg_groups :: "pokemon_egg_group_row list"
  egg_group_prose :: "name_row list"
  encounters :: "encounter_row list"
  location_areas :: "location_area_row list"
  locations :: "int list"
  location_names :: "name_row list"
  versions :: "int list"
  version_names :: "name_row list"

section \<open>SQL as list operations\<close>

text \<open>
  A query is a list comprehension over the tables in the order of its \<open>FROM\<close> clause
  (SQLite leaves the row order open where there is no \<open>ORDER BY\<close>; the nested-loop order
  is taken). \<open>ORDER BY\<close> is a stable sort, \<open>LIMIT n\<close> is \<open>take n\<close>, a comparison with
  NULL never holds.
\<close>

text \<open>\<open>LEFT JOIN t ON on\<close>: the matching rows of \<open>t\<close>, or a single NULL row.\<close>
definition left_join :: "('b \<Rightarrow> bool) \<Rightarrow> 'b list \<Rightarrow> 'b option list" where
  "left_join on t = (case filter on t of [] \<Rightarrow> [None] | m # ms \<Rightarrow> map Some (m # ms))"

text \<open>\<open>cursor.fetchone()\<close>\<close>
definition fetchone :: "'a list \<Rightarrow> 'a option" where
  "fetchone rows = (case rows of [] \<Rightarrow> None | r # _ \<Rightarrow> Some r)"

text \<open>\<open>COALESCE(a, b)\<close> with a non-null \<open>b\<close>.\<close>
definition coalesce :: "'a option \<Rightarrow> 'a \<Rightarrow> 'a" where
  "coalesce a b = (case a of None \<Rightarrow> b | Some x \<Rightarrow> x)"

section \<open>get\_pokemon\_basic\<close>

record basic_row =
  b_id :: int
  b_identifier :: string
  b_species_id :: int
  b_display_name :: string

definition get_pokemon_basic :: "db \<Rightarrow> string \<Rightarrow> basic_row option" where
  "get_pokemon_basic d identifier = fetchone (take 1
     [\<lparr>b_id = pk_id p, b_identifier = pk_identifier p, b_species_id = pk_species_id p,
       b_display_name = coalesce (Option.bind pfn pfn_pokemon_name) (nm_name psn)\<rparr>.
      p \<leftarrow> pokemon d,
      pf \<leftarrow> left_join (\<lambda>pf. pf_pokemon_id pf = pk_id p) (pokemon_forms d),
      pfn \<leftarrow> left_join (\<lambda>pfn. Some (pfn_pokemon_form_id pfn) = map_option pf_id pf
                              \<and> pfn_local_language_id pfn = LANG_EN) (pokemon_form_names d),
      psn \<leftarrow> pokemon_species_names d,
      nm_id psn = pk_species_id p \<and> nm_lang psn = LANG_EN,
      pk_identifier p = lower identifier])"

section \<open>compute\_type\_matchups\<close>

text \<open>A type with its localized name, as the two type queries return it.\<close>
record type_row =
  t_id :: int
  t_identifier :: string
  t_name :: string

record matchup_entry =
  me_identifier :: string
  me_name :: string
  me_multiplier :: rat
  me_label :: string

record type_matchups =
  weak :: "matchup_entry list"
  resist :: "matchup_entry list"
  immune :: "matchup_entry list"

definition attack_types :: "db \<Rightarrow> type_row list" where
  "attack_types d = sort_key t_id
     [\<lparr>t_id = row_id t, t_identifier = row_identifier t, t_name = nm_name tn\<rparr>.
      t \<leftarrow> types d, tn \<leftarrow> type_names d, nm_id tn = row_id t \<and> nm_lang tn = LANG_EN]"

text \<open>The rows of \<open>type_efficacy\<close> whose target is one of the defending types.\<close>
definition efficacy_rows :: "db \<Rightarrow> int list \<Rightarrow> type_efficacy_row list" where
  "efficacy_rows d type_ids = filter (\<lambda>row. target_type_id row \<in> set type_ids) (type_efficacy d)"

text \<open>
  \<open>factors[atk] *= row["damage_factor"] / 100.0\<close> for every efficacy row; reading a key
  that \<open>factors\<close> does not have raises \<open>KeyError\<close>.
\<close>
fun apply_efficacy ::
    "float_ops \<Rightarrow> (int \<rightharpoonup> rat) \<Rightarrow> type_efficacy_row list \<Rightarrow> py_error + (int \<rightharpoonup> rat)" where
  "apply_efficacy fl factors [] = Inr factors"
| "apply_efficacy fl factors (row # rows) =
     (case factors (damage_type_id row) of
        None \<Rightarrow> Inl KeyError
      | Some f \<Rightarrow> apply_efficacy fl
          (factors(damage_type_id row \<mapsto> fl_times fl f (fl_ratio fl (damage_factor row)))) rows)"

text \<open>\<open>round(factors.get(atk_id, 1.0), 2)\<close>\<close>
definition multiplier :: "float_ops \<Rightarrow> (int \<rightharpoonup> rat) \<Rightarrow> int \<Rightarrow> rat" where
  "multiplier fl factors atk_id =
     fl_round2 fl (case factors atk_id of None \<Rightarrow> 1 | Some f \<Rightarrow> f)"

text \<open>
  The label is the multiplication sign (two bytes in UTF-8) followed by the multiplier in
  Python's \<open>g\<close> format.
\<close>
definition times_sign :: string where
  "times_sign = [char_of (195 :: nat), char_of (151 :: nat)]"

definition matchup_entry_of :: "float_ops \<Rightarrow> (int \<rightharpoonup> rat) \<Rightarrow> type_row \<Rightarrow> matchup_entry" where
  "matchup_entry_of fl factors row =
     \<lparr>me_identifier = t_identifier row, me_name = t_name row,
      me_multiplier = multiplier fl factors (t_id row),
      me_label = times_sign @ fl_format_g fl (multiplier fl factors (t_id row))\<rparr>"

text \<open>The classification loop over the attacking types, with its three accumulators.\<close>
fun classify :: "float_ops \<Rightarrow> (int \<rightharpoonup> rat) \<Rightarrow> type_row list \<Rightarrow>
    matchup_entry list \<times> matchup_entry list \<times> matchup_entry list \<Rightarrow>
    matchup_entry list \<times> matchup_entry list \<times> matchup_entry list" where
  "classify fl factors [] acc = acc"
| "classify fl factors (row # rows) (ws, rs, im) =
     (let mult = multiplier fl factors (t_id row);
          entry = matchup_entry_of fl factors row
      in if mult = 0 then classify fl factors rows (ws, rs, im @ [entry])
         else if mult > float_1_01 then classify fl factors rows (ws @ [entry], rs, im)
         else if mult < float_0_99 then classify fl factors rows (ws, rs @ [entry], im)
         else classify fl factors rows (ws, rs, im))"

definition compute_type_matchups ::
    "float_ops \<Rightarrow> db \<Rightarrow> type_row list \<Rightarrow> py_error + type_matchups" where
  "compute_type_matchups fl d types_rows =
     (if types_rows = [] then Inr \<lparr>weak = [], resist = [], immune = []\<rparr>
      else
        let type_ids = map t_id types_rows;
            atk = attack_types d
        in case apply_efficacy fl (map_of (map (\<lambda>row. (t_id row, 1)) atk))
                  (efficacy_rows d type_ids) of
             Inl e \<Rightarrow> Inl e
           | Inr factors \<Rightarrow>
               (case classify fl factors atk ([], [], []) of
                  (ws, rs, im) \<Rightarrow>
                    Inr \<lparr>weak = sort_key (\<lambda>x. - me_multiplier x) ws,
                         resist = sort_key me_multiplier rs,
                         immune = im\<rparr>))"

section \<open>get\_pokemon\_data\<close>

subsection \<open>Stats\<close>

record stat_query_row =
  sq_stat_id :: int
  sq_stat_identifier :: string
  sq_stat_name :: string
  sq_base_stat :: int

record stat_entry =
  se_id :: int
  se_identifier :: string
  se_name :: string
  se_value :: int
  se_min :: int
  se_max :: int
  se_percent :: int

definition stat_rows :: "db \<Rightarrow> int \<Rightarrow> stat_query_row list" where
  "stat_rows d pokemon_id = sort_key sq_stat_id
     [\<lparr>sq_stat_id = pst_stat_id ps, sq_stat_identifier = row_identifier s,
       sq_stat_name = nm_name sn, sq_base_stat = pst_base_stat ps\<rparr>.
      ps \<leftarrow> pokemon_stats d,
      s \<leftarrow> stats d, row_id s = pst_stat_id ps,
      sn \<leftarrow> stat_names d, nm_id sn = row_id s \<and> nm_lang sn = LANG_EN,
      pst_pokemon_id ps = pokemon_id]"

text \<open>\<open>MIN(base_stat)\<close> and \<open>MAX(base_stat)\<close> grouped by \<open>stat_id\<close>, as a dictionary.\<close>
definition mins_maxs :: "db \<Rightarrow> int \<rightharpoonup> int \<times> int" where
  "mins_maxs d stat_id =
     (case map pst_base_stat (filter (\<lambda>r. pst_stat_id r = stat_id) (pokemon_stats d)) of
        [] \<Rightarrow> None
      | v # vs \<Rightarrow> Some (fold min vs v, fold max vs v))"

text \<open>
  \<open>pct = int(base_val / MAX_STAT_VIS * 100) if MAX_STAT_VIS else 0\<close>, then
  \<open>pct = max(5, min(pct, 100))\<close>. The quotient is taken exactly: for an integer base
  stat the float computation truncates to the same integer wherever the clamp does not
  decide the result.
\<close>
definition stat_percent :: "int \<Rightarrow> int" where
  "stat_percent base_val =
     (let pct = (if MAX_STAT_VIS \<noteq> 0
                 then py_int (of_int base_val / of_int MAX_STAT_VIS * 100) else 0)
      in max 5 (min pct 100))"

definition stat_entry_of :: "db \<Rightarrow> stat_query_row \<Rightarrow> stat_entry" where
  "stat_entry_of d row =
     (case (case mins_maxs d (sq_stat_id row) of None \<Rightarrow> (0, 255) | Some lh \<Rightarrow> lh) of
        (lo, hi) \<Rightarrow>
          \<lparr>se_id = sq_stat_id row, se_identifier = sq_stat_identifier row,
           se_name = sq_stat_name row, se_value = sq_base_stat row,
           se_min = lo, se_max = hi, se_percent = stat_percent (sq_base_stat row)\<rparr>)"

subsection \<open>Types and abilities\<close>

definition type_rows :: "db \<Rightarrow> int \<Rightarrow> type_row list" where
  "type_rows d pokemon_id = map snd (sort_key fst
     [(pt_slot pt, \<lparr>t_id = row_id ty, t_identifier = row_identifier ty, t_name = nm_name tn\<rparr>).
      pt \<leftarrow> pokemon_types d,
      ty \<leftarrow> types d, row_id ty = pt_type_id pt,
      tn \<leftarrow> type_names d, nm_id tn = row_id ty \<and> nm_lang tn = LANG_EN,
      pt_pokemon_id pt = pokemon_id])"

record type_entry =
  te_identifier :: string
  te_name :: string

record ability_entry =
  ab_identifier :: string
  ab_name :: string
  ab_is_hidden :: bool
  ab_flavor_text :: string

text \<open>The scalar subquery: the flavor text of the latest version group, or NULL.\<close>
definition ability_flavor :: "db \<Rightarrow> int \<Rightarrow> string option" where
  "ability_flavor d ability_id = map_option aft_flavor_text (fetchone (take 1
     (sort_key (\<lambda>aft. - aft_version_group_id aft)
        (filter (\<lambda>aft. aft_ability_id aft = ability_id \<and> aft_language_id aft = LANG_EN)
           (ability_flavor_text d)))))"

definition abilities_of :: "db \<Rightarrow> int \<Rightarrow> ability_entry list" where
  "abilities_of d pokemon_id = map snd (sort_key fst
     [(pa_slot pa,
       \<lparr>ab_identifier = row_identifier a, ab_name = nm_name an,
        ab_is_hidden = (pa_is_hidden pa \<noteq> 0),
        ab_flavor_text = strip_breaks (or_empty (ability_flavor d (row_id a)))\<rparr>).
      pa \<leftarrow> pokemon_abilities d,
      a \<leftarrow> abilities d, row_id a = pa_ability_id pa,
      an \<leftarrow> ability_names d, nm_id an = row_id a \<and> nm_lang an = LANG_EN,
      pa_pokemon_id pa = pokemon_id])"

subsection \<open>Species info, generation, region\<close>

definition species_row_of :: "db \<Rightarrow> int \<Rightarrow> species_row option" where
  "species_row_of d species_id = fetchone (filter (\<lambda>ps. ps_id ps = species_id) (pokemon_species d))"

definition growth_rate_of :: "db \<Rightarrow> int \<Rightarrow> string option" where
  "growth_rate_of d growth_rate_id = fetchone (take 1
     [coalesce (map_option nm_name grp) (row_identifier gr).
      gr \<leftarrow> growth_rates d,
      grp \<leftarrow> left_join (\<lambda>grp. nm_id grp = row_id gr \<and> nm_lang grp = LANG_EN) (growth_rate_prose d),
      row_id gr = growth_rate_id])"

text \<open>The generation query: (gen\_name, region\_name), either of them nullable.\<close>
definition generation_of :: "db \<Rightarrow> int \<Rightarrow> (string option \<times> string option) option" where
  "generation_of d generation_id = fetchone (take 1
     [(map_option nm_name gn, map_option nm_name rn).
      g \<leftarrow> generations d,
      gn \<leftarrow> left_join (\<lambda>gn. nm_id gn = g_id g \<and> nm_lang gn = LANG_EN) (generation_names d),
      r \<leftarrow> left_join (\<lambda>r. Some r = g_main_region_id g) (regions d),
      rn \<leftarrow> left_join (\<lambda>rn. Some (nm_id rn) = r \<and> nm_lang rn = LANG_EN) (region_names d),
      g_id g = generation_id])"

subsection \<open>Evolution chain\<close>

record evo_species =
  es_species_id :: int
  es_identifier :: "string option"
  es_name :: "string option"

record evolution_edge =
  ee_from :: "evo_species option"
  ee_to :: evo_species
  ee_condition :: string

definition evolution_rows :: "db \<Rightarrow> int \<Rightarrow> evo_row list" where
  "evolution_rows d evo_chain_id = sort_key to_species_id
     [\<lparr>from_species_id = map_option ps_id from_ps,
       from_identifier = map_option ps_identifier from_ps,
       from_name = map_option nm_name from_psn,
       to_species_id = ps_id to_ps,
       to_identifier = ps_identifier to_ps,
       to_name = map_option nm_name to_psn,
       trigger_identifier = map_option row_identifier et,
       minimum_level = e_minimum_level e,
       minimum_happiness = e_minimum_happiness e,
       time_of_day = e_time_of_day e,
       item_name = map_option nm_name itn,
       held_item_name = map_option nm_name hitn,
       known_move_name = map_option nm_name kmn\<rparr>.
      e \<leftarrow> pokemon_evolution d,
      to_ps \<leftarrow> pokemon_species d, ps_id to_ps = e_evolved_species_id e,
      from_ps \<leftarrow> left_join (\<lambda>from_ps. Some (ps_id from_ps) = ps_evolves_from_species_id to_ps)
                   (pokemon_species d),
      to_psn \<leftarrow> left_join (\<lambda>psn. nm_id psn = ps_id to_ps \<and> nm_lang psn = LANG_EN)
                  (pokemon_species_names d),
      from_psn \<leftarrow> left_join (\<lambda>psn. Some (nm_id psn) = map_option ps_id from_ps
                                    \<and> nm_lang psn = LANG_EN) (pokemon_species_names d),
      et \<leftarrow> left_join (\<lambda>et. Some (row_id et) = e_evolution_trigger_id e) (evolution_triggers d),
      it \<leftarrow> left_join (\<lambda>it. Some it = e_trigger_item_id e) (items d),
      itn \<leftarrow> left_join (\<lambda>itn. Some (nm_id itn) = it \<and> nm_lang itn = LANG_EN) (item_names d),
      hit \<leftarrow> left_join (\<lambda>hit. Some hit = e_held_item_id e) (items d),
      hitn \<leftarrow> left_join (\<lambda>hitn. Some (nm_id hitn) = hit \<and> nm_lang hitn = LANG_EN) (item_names d),
      km \<leftarrow> left_join (\<lambda>km. Some (m_id km) = e_known_move_id e) (moves d),
      kmn \<leftarrow> left_join (\<lambda>kmn. Some (nm_id kmn) = map_option m_id km \<and> nm_lang kmn = LANG_EN)
               (move_names d),
      ps_evolution_chain_id to_ps = Some evo_chain_id]"

definition evolution_edge_of :: "evo_row \<Rightarrow> evolution_edge" where
  "evolution_edge_of row =
     \<lparr>ee_from = (case from_species_id row of
                   None \<Rightarrow> None
                 | Some i \<Rightarrow> Some \<lparr>es_species_id = i, es_identifier = from_identifier row,
                                   es_name = from_name row\<rparr>),
      ee_to = \<lparr>es_species_id = to_species_id row, es_identifier = Some (to_identifier row),
               es_name = to_name row\<rparr>,
      ee_condition = describe_evo_step row\<rparr>"

definition evolution_edges :: "db \<Rightarrow> int option \<Rightarrow> evolution_edge list" where
  "evolution_edges d evo_chain_id =
     (if truthy_int evo_chain_id then map evolution_edge_of (evolution_rows d (the evo_chain_id))
      else [])"

subsection \<open>Egg groups, flavor text, sprite\<close>

definition egg_groups_of :: "db \<Rightarrow> int \<Rightarrow> string list" where
  "egg_groups_of d species_id = map snd (sort_key fst
     [(peg_egg_group_id peg, nm_name egp).
      peg \<leftarrow> pokemon_egg_groups d,
      egp \<leftarrow> egg_group_prose d,
      nm_id egp = peg_egg_group_id peg \<and> nm_lang egp = LANG_EN,
      peg_species_id peg = species_id])"

definition flavor_text_of :: "db \<Rightarrow> int \<Rightarrow> string" where
  "flavor_text_of d species_id =
     (case fetchone (take 1 (sort_key (\<lambda>r. - sft_version_id r)
             (filter (\<lambda>r. sft_species_id r = species_id \<and> sft_language_id r = LANG_EN)
                (pokemon_species_flavor_text d)))) of
        Some ft \<Rightarrow> strip_breaks (sft_flavor_text ft)
      | None \<Rightarrow> [])"

definition sprite_url_of :: "int \<Rightarrow> string" where
  "sprite_url_of pokemon_id = ''/static/sprites/'' @ str_int pokemon_id @ ''.png''"

subsection \<open>Moves\<close>

record move_query_row =
  mq_level :: int
  mq_move_identifier :: string
  mq_move_name :: string
  mq_type_identifier :: "string option"
  mq_type_name :: "string option"
  mq_damage_class_identifier :: "string option"
  mq_damage_class_name :: "string option"
  mq_power :: "int option"
  mq_accuracy :: "int option"
  mq_pp :: "int option"
  mq_short_effect :: "string option"

record move_entry =
  mv_name :: string
  mv_level :: int
  mv_type_identifier :: "string option"
  mv_type_name :: "string option"
  mv_category :: "string option"
  mv_power :: "int option"
  mv_accuracy :: "int option"
  mv_pp :: "int option"
  mv_effect :: string

text \<open>The joined rows of one \<open>pokemon_moves\<close> row \<open>pm\<close> and its move \<open>m\<close>.\<close>
definition move_join :: "db \<Rightarrow> pokemon_move_row \<Rightarrow> move_row \<Rightarrow> move_query_row list" where
  "move_join d pm m =
     [\<lparr>mq_level = pm_level pm, mq_move_identifier = m_identifier m,
       mq_move_name = coalesce (map_option nm_name mn) (m_identifier m),
       mq_type_identifier = map_option row_identifier t,
       mq_type_name = map_option nm_name tn,
       mq_damage_class_identifier = map_option row_identifier mdc,
       mq_damage_class_name = map_option nm_name mdcp,
       mq_power = m_power m, mq_accuracy = m_accuracy m, mq_pp = m_pp m,
       mq_short_effect = Option.bind mep mep_short_effect\<rparr>.
      mn \<leftarrow> left_join (\<lambda>mn. nm_id mn = m_id m \<and> nm_lang mn = LANG_EN) (move_names d),
      t \<leftarrow> left_join (\<lambda>t. Some (row_id t) = m_type_id m) (types d),
      tn \<leftarrow> left_join (\<lambda>tn. Some (nm_id tn) = map_option row_id t \<and> nm_lang tn = LANG_EN)
              (type_names d),
      mdc \<leftarrow> left_join (\<lambda>mdc. Some (row_id mdc) = m_damage_class_id m) (move_damage_classes d),
      mdcp \<leftarrow> left_join (\<lambda>mdcp. Some (nm_id mdcp) = map_option row_id mdc
                                \<and> nm_lang mdcp = LANG_EN) (move_damage_class_prose d),
      mep \<leftarrow> left_join (\<lambda>mep. Some (mep_move_effect_id mep) = m_effect_id m
                              \<and> mep_local_language_id mep = LANG_EN) (move_effect_prose d)]"

definition move_rows :: "db \<Rightarrow> int \<Rightarrow> move_query_row list" where
  "move_rows d pokemon_id = sort_key (\<lambda>r. (mq_level r, mq_move_identifier r))
     [r.
      pm \<leftarrow> pokemon_moves d,
      m \<leftarrow> moves d, m_id m = pm_move_id pm,
      r \<leftarrow> move_join d pm m,
      pm_pokemon_id pm = pokemon_id
        \<and> pm_version_group_id pm = BW_VERSION_GROUP_ID
        \<and> pm_pokemon_move_method_id pm = LEVELUP_METHOD_ID]"

definition move_entry_of :: "move_query_row \<Rightarrow> move_entry" where
  "move_entry_of r =
     \<lparr>mv_name = title (replace CHR ''-'' CHR '' '' (mq_move_name r)),
      mv_level = mq_level r,
      mv_type_identifier = mq_type_identifier r,
      mv_type_name = mq_type_name r,
      mv_category = mq_damage_class_name r,
      mv_power = mq_power r, mv_accuracy = mq_accuracy r, mv_pp = mq_pp r,
      mv_effect = strip_breaks (or_empty (mq_short_effect r))\<rparr>"

definition moves_of :: "db \<Rightarrow> int \<Rightarrow> move_entry list" where
  "moves_of d pokemon_id = map move_entry_of (move_rows d pokemon_id)"

subsection \<open>Forms\<close>

record form_entry =
  fm_identifier :: string
  fm_name :: string
  fm_is_default :: bool

text \<open>The joined rows of one \<open>pokemon\<close> row in the forms query.\<close>
definition form_join :: "db \<Rightarrow> pokemon_row \<Rightarrow> form_entry list" where
  "form_join d p =
     [\<lparr>fm_identifier = pk_identifier p,
       fm_name = coalesce (Option.bind pfn pfn_pokemon_name) (nm_name psn),
       fm_is_default = (pk_is_default p \<noteq> 0)\<rparr>.
      pf \<leftarrow> left_join (\<lambda>pf. pf_pokemon_id pf = pk_id p) (pokemon_forms d),
      pfn \<leftarrow> left_join (\<lambda>pfn. Some (pfn_pokemon_form_id pfn) = map_option pf_id pf
                              \<and> pfn_local_language_id pfn = LANG_EN) (pokemon_form_names d),
      psn \<leftarrow> pokemon_species_names d,
      nm_id psn = pk_species_id p \<and> nm_lang psn = LANG_EN]"

definition form_rows :: "db \<Rightarrow> int \<Rightarrow> form_entry list" where
  "form_rows d species_id = map snd (sort_key fst
     [(pk_id p, r). p \<leftarrow> pokemon d, r \<leftarrow> form_join d p, pk_species_id p = species_id])"

definition forms_of :: "db \<Rightarrow> int \<Rightarrow> form_entry list" where
  "forms_of d species_id =
     (let forms = form_rows d species_id in if length forms \<le> 1 then [] else forms)"

subsection \<open>Encounters\<close>

record encounter_entry =
  enc_version :: string
  enc_locations :: "string list"

text \<open>The raw (version name, location name) pairs, \<open>LIMIT 40\<close>.\<close>
definition encounter_rows :: "db \<Rightarrow> int \<Rightarrow> (string \<times> string) list" where
  "encounter_rows d pokemon_id = take 40
     [(nm_name vname, nm_name lname).
      e \<leftarrow> encounters d,
      la \<leftarrow> location_areas d, la_id la = en_location_area_id e,
      l \<leftarrow> locations d, l = la_location_id la,
      lname \<leftarrow> location_names d, nm_id lname = l \<and> nm_lang lname = LANG_EN,
      v \<leftarrow> versions d, v = en_version_id e,
      vname \<leftarrow> version_names d, nm_id vname = v \<and> nm_lang vname = LANG_EN,
      en_pokemon_id e = pokemon_id]"

text \<open>
  \<open>encounter_map.setdefault(ver, set()).add(loc)\<close> on a dictionary that keeps its keys
  in insertion order.
\<close>
fun add_encounter :: "(string \<times> string set) list \<Rightarrow> string \<times> string \<Rightarrow> (string \<times> string set) list" where
  "add_encounter [] (ver, loc) = [(ver, {loc})]"
| "add_encounter ((k, locs) # m) (ver, loc) =
     (if k = ver then (k, insert loc locs) # m else (k, locs) # add_encounter m (ver, loc))"

definition encounter_map :: "(string \<times> string) list \<Rightarrow> (string \<times> string set) list" where
  "encounter_map rows = fold (\<lambda>r m. add_encounter m r) rows []"

definition encounters_of :: "db \<Rightarrow> int \<Rightarrow> encounter_entry list" where
  "encounters_of d pokemon_id = sort_key enc_version
     (map (\<lambda>(ver, locs). \<lparr>enc_version = ver, enc_locations = take 5 (sorted_list_of_set locs)\<rparr>)
        (encounter_map (encounter_rows d pokemon_id)))"

subsection \<open>Previous and next species\<close>

record nav_entry =
  nav_dex :: int
  nav_identifier :: string
  nav_name :: string

text \<open>The species that have a localized name, as both navigation queries join them.\<close>
definition named_species :: "db \<Rightarrow> nav_entry list" where
  "named_species d =
     [\<lparr>nav_dex = ps_id ps, nav_identifier = ps_identifier ps, nav_name = nm_name psn\<rparr>.
      ps \<leftarrow> pokemon_species d,
      psn \<leftarrow> pokemon_species_names d,
      nm_id psn = ps_id ps \<and> nm_lang psn = LANG_EN]"

definition nav_prev_of :: "db \<Rightarrow> int \<Rightarrow> nav_entry option" where
  "nav_prev_of d species_id = fetchone (take 1
     (sort_key (\<lambda>r. - nav_dex r) (filter (\<lambda>r. nav_dex r < species_id) (named_species d))))"

definition nav_next_of :: "db \<Rightarrow> int \<Rightarrow> nav_entry option" where
  "nav_next_of d species_id = fetchone (take 1
     (sort_key nav_dex (filter (\<lambda>r. nav_dex r > species_id) (named_species d))))"

subsection \<open>The composed view\<close>

record view =
  v_identifier :: string
  v_display_name :: string
  v_dex :: int
  v_stats :: "stat_entry list"
  v_total :: int
  v_types :: "type_entry list"
  v_abilities :: "ability_entry list"
  v_sprite_url :: string
  v_moves :: "move_entry list"
  v_evolutions :: "evolution_edge list"
  v_egg_groups :: "string list"
  v_growth_rate :: "string option"
  v_capture_rate :: "int option"
  v_base_happiness :: "int option"
  v_flavor_text :: string
  v_generation :: "string option"
  v_region :: "string option"
  v_type_matchups :: type_matchups
  v_forms :: "form_entry list"
  v_nav_prev :: "nav_entry option"
  v_nav_next :: "nav_entry option"
  v_encounters :: "encounter_entry list"

text \<open>
  The result is \<open>Inr None\<close> where the function returns \<open>None\<close>, \<open>Inr (Some view)\<close> where it
  returns the dictionary and \<open>Inl e\<close> where it raises \<open>e\<close>.
\<close>
definition get_pokemon_data :: "float_ops \<Rightarrow> db \<Rightarrow> string \<Rightarrow> py_error + view option" where
  "get_pokemon_data fl d identifier =
     (case get_pokemon_basic d identifier of
        None \<Rightarrow> Inr None
      | Some base \<Rightarrow>
          let pokemon_id = b_id base;
              species_id = b_species_id base;
              srows = stat_rows d pokemon_id
          in if srows = [] then Inr None
             else
               let trows = type_rows d pokemon_id;
                   srow = species_row_of d species_id;
                   evo_chain_id = Option.bind srow ps_evolution_chain_id;
                   growth_rate_name =
                     (case srow of None \<Rightarrow> None
                      | Some sr \<Rightarrow> if truthy_int (ps_growth_rate_id sr)
                          then growth_rate_of d (the (ps_growth_rate_id sr)) else None);
                   gen =
                     (case srow of None \<Rightarrow> None
                      | Some sr \<Rightarrow> if truthy_int (ps_generation_id sr)
                          then generation_of d (the (ps_generation_id sr)) else None)
               in case compute_type_matchups fl d trows of
                    Inl e \<Rightarrow> Inl e
                  | Inr matchups \<Rightarrow>
                      Inr (Some
                        \<lparr>v_identifier = b_identifier base,
                         v_display_name = b_display_name base,
                         v_dex = species_id,
                         v_stats = map (stat_entry_of d) srows,
                         v_total = sum_list (map sq_base_stat srows),
                         v_types = map (\<lambda>t. \<lparr>te_identifier = t_identifier t, te_name = t_name t\<rparr>) trows,
                         v_abilities = abilities_of d pokemon_id,
                         v_sprite_url = sprite_url_of pokemon_id,
                         v_moves = moves_of d pokemon_id,
                         v_evolutions = evolution_edges d evo_chain_id,
                         v_egg_groups = egg_groups_of d species_id,
                         v_growth_rate = growth_rate_name,
                         v_capture_rate = Option.bind srow ps_capture_rate,
                         v_base_happiness = Option.bind srow ps_base_happiness,
                         v_flavor_text = flavor_text_of d species_id,
                         v_generation = Option.bind gen fst,
                         v_region = Option.bind gen snd,
                         v_type_matchups = matchups,
                         v_forms = forms_of d species_id,
                         v_nav_prev = nav_prev_of d species_id,
                         v_nav_next = nav_next_of d species_id,
                         v_encounters = encounters_of d pokemon_id\<rparr>))"

section \<open>A sample dataset\<close>

definition empty_db :: db where
  "empty_db =
     \<lparr>pokemon = [], pokemon_forms = [], pokemon_form_names = [], pokemon_species = [],
      pokemon_species_names = [], pokemon_species_flavor_text = [], pokemon_stats = [],
      stats = [], stat_names = [], pokemon_types = [], types = [], type_names = [],
      type_efficacy = [], pokemon_abilities = [], abilities = [], ability_names = [],
      ability_flavor_text = [], growth_rates = [], growth_rate_prose = [], generations = [],
      generation_names = [], regions = [], region_names = [], pokemon_evolution = [],
      evolution_triggers = [], items = [], item_names = [], moves = [], move_names = [],
      move_damage_classes = [], move_damage_class_prose = [], move_effect_prose = [],
      pokemon_moves = [], pokemon_egg_groups = [], egg_group_prose = [], encounters = [],
      location_areas = [], locations = [], location_names = [], versions = [],
      version_names = []\<rparr>"

definition en :: "int \<Rightarrow> string \<Rightarrow> name_row" where
  "en i n = \<lparr>nm_id = i, nm_lang = 9, nm_name = n\<rparr>"

definition idr :: "int \<Rightarrow> string \<Rightarrow> ident_row" where
  "idr i n = \<lparr>row_id = i, row_identifier = n\<rparr>"

text \<open>Pichu, Pikachu and Raichu, with a second Form of Pikachu.\<close>
definition sample_db :: db where
  "sample_db = empty_db
     \<lparr>pokemon :=
        [\<lparr>pk_id = 25, pk_identifier = ''pikachu'', pk_species_id = 25, pk_is_default = 1\<rparr>,
         \<lparr>pk_id = 26, pk_identifier = ''raichu'', pk_species_id = 26, pk_is_default = 1\<rparr>,
         \<lparr>pk_id = 10080, pk_identifier = ''pikachu-rock-star'', pk_species_id = 25, pk_is_default = 0\<rparr>],
      pokemon_forms :=
        [\<lparr>pf_id = 25, pf_pokemon_id = 25\<rparr>, \<lparr>pf_id = 26, pf_pokemon_id = 26\<rparr>,
         \<lparr>pf_id = 10187, pf_pokemon_id = 10080\<rparr>],
      pokemon_form_names :=
        [\<lparr>pfn_pokemon_form_id = 10187, pfn_local_language_id = 9,
          pfn_pokemon_name = Some ''Pikachu Rock Star''\<rparr>],
      pokemon_species :=
        [\<lparr>ps_id = 25, ps_identifier = ''pikachu'', ps_evolution_chain_id = Some 10,
          ps_evolves_from_species_id = Some 172, ps_growth_rate_id = Some 2,
          ps_capture_rate = Some 190, ps_base_happiness = Some 70, ps_generation_id = Some 1\<rparr>,
         \<lparr>ps_id = 26, ps_identifier = ''raichu'', ps_evolution_chain_id = Some 10,
          ps_evolves_from_species_id = Some 25, ps_growth_rate_id = Some 2,
          ps_capture_rate = Some 75, ps_base_happiness = Some 70, ps_generation_id = Some 1\<rparr>,
         \<lparr>ps_id = 172, ps_identifier = ''pichu'', ps_evolution_chain_id = Some 10,
          ps_evolves_from_species_id = None, ps_growth_rate_id = Some 2,
          ps_capture_rate = Some 190, ps_base_happiness = Some 70, ps_generation_id = None\<rparr>],
      pokemon_species_names := [en 25 ''Pikachu'', en 26 ''Raichu'', en 172 ''Pichu''],
      pokemon_species_flavor_text :=
        [\<lparr>sft_species_id = 25, sft_version_id = 17, sft_language_id = 9,
          sft_flavor_text = ''It stores'' @ [newline] @ ''electricity'' @ [formfeed] @ ''in its cheeks.''\<rparr>,
         \<lparr>sft_species_id = 25, sft_version_id = 1, sft_language_id = 9,
          sft_flavor_text = ''When several gather, lightning storms follow.''\<rparr>],
      pokemon_stats :=
        [\<lparr>pst_pokemon_id = 25, pst_stat_id = 2, pst_base_stat = 55\<rparr>,
         \<lparr>pst_pokemon_id = 25, pst_stat_id = 1, pst_base_stat = 35\<rparr>,
         \<lparr>pst_pokemon_id = 26, pst_stat_id = 1, pst_base_stat = 60\<rparr>,
         \<lparr>pst_pokemon_id = 26, pst_stat_id = 2, pst_base_stat = 90\<rparr>],
      stats := [idr 1 ''hp'', idr 2 ''attack''],
      stat_names := [en 1 ''HP'', en 2 ''Attack''],
      pokemon_types :=
        [\<lparr>pt_pokemon_id = 25, pt_type_id = 13, pt_slot = 1\<rparr>,
         \<lparr>pt_pokemon_id = 26, pt_type_id = 13, pt_slot = 1\<rparr>],
      types := [idr 1 ''normal'', idr 2 ''fighting'', idr 3 ''flying'', idr 5 ''ground'',
                idr 8 ''ghost'', idr 13 ''electric'', idr 15 ''ice''],
      type_names := [en 1 ''Normal'', en 2 ''Fighting'', en 3 ''Flying'', en 5 ''Ground'',
                     en 8 ''Ghost'', en 13 ''Electric'', en 15 ''Ice''],
      type_efficacy :=
        [\<lparr>damage_type_id = 2, target_type_id = 1, damage_factor = 200\<rparr>,
         \<lparr>damage_type_id = 8, target_type_id = 1, damage_factor = 0\<rparr>,
         \<lparr>damage_type_id = 1, target_type_id = 1, damage_factor = 100\<rparr>,
         \<lparr>damage_type_id = 3, target_type_id = 13, damage_factor = 50\<rparr>,
         \<lparr>damage_type_id = 5, target_type_id = 13, damage_factor = 200\<rparr>,
         \<lparr>damage_type_id = 13, target_type_id = 13, damage_factor = 50\<rparr>,
         \<lparr>damage_type_id = 5, target_type_id = 3, damage_factor = 0\<rparr>,
         \<lparr>damage_type_id = 13, target_type_id = 3, damage_factor = 200\<rparr>,
         \<lparr>damage_type_id = 15, target_type_id = 3, damage_factor = 200\<rparr>],
      pokemon_abilities :=
        [\<lparr>pa_pokemon_id = 25, pa_ability_id = 31, pa_is_hidden = 1, pa_slot = 3\<rparr>,
         \<lparr>pa_pokemon_id = 25, pa_ability_id = 9, pa_is_hidden = 0, pa_slot = 1\<rparr>],
      abilities := [idr 9 ''static'', idr 31 ''lightning-rod''],
      ability_names := [en 9 ''Static'', en 31 ''Lightning Rod''],
      ability_flavor_text :=
        [\<lparr>aft_ability_id = 9, aft_version_group_id = 11, aft_language_id = 9,
          aft_flavor_text = ''Contact may'' @ [newline] @ ''paralyze.''\<rparr>],
      growth_rates := [idr 2 ''medium''],
      growth_rate_prose := [en 2 ''medium''],
      generations := [\<lparr>g_id = 1, g_main_region_id = Some 1\<rparr>],
      generation_names := [en 1 ''Generation I''],
      regions := [1],
      region_names := [en 1 ''Kanto''],
      pokemon_evolution :=
        [\<lparr>e_evolved_species_id = 26, e_evolution_trigger_id = Some 3, e_trigger_item_id = Some 83,
          e_minimum_level = None, e_held_item_id = None, e_time_of_day = None,
          e_known_move_id = None, e_minimum_happiness = None\<rparr>,
         \<lparr>e_evolved_species_id = 25, e_evolution_trigger_id = Some 1, e_trigger_item_id = None,
          e_minimum_level = None, e_held_item_id = None, e_time_of_day = None,
          e_known_move_id = None, e_minimum_happiness = Some 220\<rparr>],
      evolution_triggers := [idr 1 ''level-up'', idr 3 ''use-item''],
      items := [83],
      item_names := [en 83 ''Thunder Stone''],
      moves :=
        [\<lparr>m_id = 45, m_identifier = ''growl'', m_type_id = Some 1, m_damage_class_id = Some 1,
          m_effect_id = Some 19, m_power = None, m_accuracy = Some 100, m_pp = Some 40\<rparr>,
         \<lparr>m_id = 84, m_identifier = ''thunder-shock'', m_type_id = Some 13, m_damage_class_id = Some 3,
          m_effect_id = Some 7, m_power = Some 40, m_accuracy = Some 100, m_pp = Some 30\<rparr>,
         \<lparr>m_id = 85, m_identifier = ''thunderbolt'', m_type_id = Some 13, m_damage_class_id = Some 3,
          m_effect_id = Some 7, m_power = Some 95, m_accuracy = Some 100, m_pp = Some 15\<rparr>,
         \<lparr>m_id = 98, m_identifier = ''quick-attack'', m_type_id = Some 1, m_damage_class_id = Some 2,
          m_effect_id = None, m_power = Some 40, m_accuracy = Some 100, m_pp = Some 30\<rparr>],
      move_names := [en 45 ''Growl'', en 84 ''Thunder Shock'', en 85 ''Thunderbolt''],
      move_damage_classes := [idr 1 ''status'', idr 2 ''physical'', idr 3 ''special''],
      move_damage_class_prose := [en 1 ''status'', en 2 ''physical'', en 3 ''special''],
      move_effect_prose :=
        [\<lparr>mep_move_effect_id = 7, mep_local_language_id = 9,
          mep_short_effect = Some (''Has a chance'' @ [newline] @ ''to paralyze.'')\<rparr>,
         \<lparr>mep_move_effect_id = 19, mep_local_language_id = 9,
          mep_short_effect = Some ''Lowers the Attack of the target.''\<rparr>],
      pokemon_moves :=
        [\<lparr>pm_pokemon_id = 25, pm_version_group_id = 11, pm_move_id = 98,
          pm_pokemon_move_method_id = 1, pm_level = 13\<rparr>,
         \<lparr>pm_pokemon_id = 25, pm_version_group_id = 11, pm_move_id = 84,
          pm_pokemon_move_method_id = 1, pm_level = 1\<rparr>,
         \<lparr>pm_pokemon_id = 25, pm_version_group_id = 11, pm_move_id = 45,
          pm_pokemon_move_method_id = 1, pm_level = 1\<rparr>,
         \<lparr>pm_pokemon_id = 25, pm_version_group_id = 11, pm_move_id = 85,
          pm_pokemon_move_method_id = 4, pm_level = 0\<rparr>,
         \<lparr>pm_pokemon_id = 25, pm_version_group_id = 9, pm_move_id = 85,
          pm_pokemon_move_method_id = 1, pm_level = 26\<rparr>,
         \<lparr>pm_pokemon_id = 26, pm_version_group_id = 11, pm_move_id = 85,
          pm_pokemon_move_method_id = 1, pm_level = 1\<rparr>],
      pokemon_egg_groups :=
        [\<lparr>peg_species_id = 25, peg_egg_group_id = 6\<rparr>, \<lparr>peg_species_id = 25, peg_egg_group_id = 5\<rparr>],
      egg_group_prose := [en 5 ''Field'', en 6 ''Fairy''],
      encounters :=
        [\<lparr>en_version_id = 2, en_location_area_id = 321, en_pokemon_id = 25\<rparr>,
         \<lparr>en_version_id = 1, en_location_area_id = 330, en_pokemon_id = 25\<rparr>,
         \<lparr>en_version_id = 1, en_location_area_id = 321, en_pokemon_id = 25\<rparr>,
         \<lparr>en_version_id = 1, en_location_area_id = 322, en_pokemon_id = 25\<rparr>,
         \<lparr>en_version_id = 1, en_location_area_id = 340, en_pokemon_id = 25\<rparr>,
         \<lparr>en_version_id = 1, en_location_area_id = 341, en_pokemon_id = 25\<rparr>,
         \<lparr>en_version_id = 1, en_location_area_id = 342, en_pokemon_id = 25\<rparr>,
         \<lparr>en_version_id = 1, en_location_area_id = 343, en_pokemon_id = 25\<rparr>,
         \<lparr>en_version_id = 2, en_location_area_id = 330, en_pokemon_id = 26\<rparr>],
      location_areas :=
        [\<lparr>la_id = 321, la_location_id = 155\<rparr>, \<lparr>la_id = 322, la_location_id = 155\<rparr>,
         \<lparr>la_id = 330, la_location_id = 136\<rparr>, \<lparr>la_id = 340, la_location_id = 147\<rparr>,
         \<lparr>la_id = 341, la_location_id = 162\<rparr>, \<lparr>la_id = 342, la_location_id = 77\<rparr>,
         \<lparr>la_id = 343, la_location_id = 78\<rparr>],
      locations := [77, 78, 136, 147, 155, 162],
      location_names := [en 77 ''Route 24'', en 78 ''Route 25'', en 136 ''Power Plant'',
                         en 147 ''Cerulean Cave'', en 155 ''Viridian Forest'', en 162 ''Safari Zone''],
      versions := [1, 2],
      version_names := [en 1 ''Red'', en 2 ''Blue'']\<rparr>"

text \<open>
  A float formatter for evaluating examples: for a multiple of 1/100 of magnitude below
  10000 it prints what Python's \<open>g\<close> format prints (at most two decimals, trailing zeros
  trimmed).
\<close>
definition format_g_small :: "rat \<Rightarrow> string" where
  "format_g_small x =
     (let n = \<lfloor>\<bar>x\<bar> * 100\<rfloor>; ip = n div 100; fp = n mod 100
      in (if x < 0 then ''-'' else []) @ str_int ip @
         (if fp = 0 then []
          else if fp mod 10 = 0 then ''.'' @ str_int (fp div 10)
          else ''.'' @ (if fp < 10 then ''0'' else []) @ str_int fp))"

text \<open>
  Float operations for evaluating the examples: exact arithmetic, and a \<open>round(x, 2)\<close>
  that changes nothing. They give what Python's operations give on the factors of the
  sample dataset (0, 50, 100 and 200, at most two for an attacking type), whose quotients
  by 100 and products are 0, 1/4, 1/2, 1, 2 or 4: exact in binary floating point, and
  left as they are by \<open>round(x, 2)\<close>.
\<close>
definition exact_float_ops :: float_ops where
  "exact_float_ops =
     \<lparr>fl_ratio = (\<lambda>n. of_int n / 100), fl_times = (\<lambda>x y. x * y),
      fl_round2 = (\<lambda>x. x), fl_format_g = format_g_small\<rparr>"

text \<open>The sample dataset without the localized name of the Ground type.\<close>
definition unnamed_type_db :: db where
  "unnamed_type_db = sample_db
     \<lparr>type_names := [en 1 ''Normal'', en 2 ''Fighting'', en 3 ''Flying'', en 8 ''Ghost'',
                     en 13 ''Electric'', en 15 ''Ice'']\<rparr>"

text \<open>A species with a single Form that has two rows in \<open>pokemon_forms\<close>.\<close>
definition unown_db :: db where
  "unown_db = empty_db
     \<lparr>pokemon :=
        [\<lparr>pk_id = 201, pk_identifier = ''unown'', pk_species_id = 201, pk_is_default = 1\<rparr>],
      pokemon_forms := [\<lparr>pf_id = 201, pf_pokemon_id = 201\<rparr>, \<lparr>pf_id = 10001, pf_pokemon_id = 201\<rparr>],
      pokemon_species :=
        [\<lparr>ps_id = 201, ps_identifier = ''unown'', ps_evolution_chain_id = Some 99,
          ps_evolves_from_species_id = None, ps_growth_rate_id = Some 2,
          ps_capture_rate = Some 225, ps_base_happiness = Some 70, ps_generation_id = Some 2\<rparr>],
      pokemon_species_names := [en 201 ''Unown''],
      pokemon_stats := [\<lparr>pst_pokemon_id = 201, pst_stat_id = 1, pst_base_stat = 48\<rparr>],
      stats := [idr 1 ''hp''],
      stat_names := [en 1 ''HP'']\<rparr>"

section \<open>The properties in the words of the specification\<close>

text \<open>
  The visual percentage as specified: \<open>clamp(round(value / 180 * 100), 5, 100)\<close>, with
  rounding to the nearest integer.
\<close>
definition spec_percent :: "int \<Rightarrow> int" where
  "spec_percent v = max 5 (min (round (of_int v / 180 * 100 :: rat)) 100)"


text \<open>
  The condition string as specified: one clause for every trigger field that is present
  (not NULL), comma-separated in the fixed order; without any clause, the trigger kind in
  title case; without a trigger kind, the empty string.
\<close>
definition spec_clauses :: "evo_row \<Rightarrow> string list" where
  "spec_clauses row =
     (case minimum_level row of None \<Rightarrow> [] | Some n \<Rightarrow> [''Level '' @ str_int n])
   @ (case item_name row of None \<Rightarrow> [] | Some x \<Rightarrow> [''Use '' @ x])
   @ (case held_item_name row of None \<Rightarrow> [] | Some x \<Rightarrow> [''Holding '' @ x])
   @ (case minimum_happiness row of None \<Rightarrow> [] | Some n \<Rightarrow> [''High friendship''])
   @ (case known_move_name row of None \<Rightarrow> [] | Some x \<Rightarrow> [''Knows '' @ x])
   @ (case time_of_day row of None \<Rightarrow> [] | Some x \<Rightarrow> [capitalize x])"

definition spec_condition :: "evo_row \<Rightarrow> string" where
  "spec_condition row =
     (if spec_clauses row \<noteq> [] then join '', '' (spec_clauses row)
      else case trigger_identifier row of
             None \<Rightarrow> []
           | Some t \<Rightarrow> title (replace CHR ''-'' CHR '' '' t))"

text \<open>A zero number or an empty string read as an absent (NULL) field.\<close>
definition null_if_zero :: "int option \<Rightarrow> int option" where
  "null_if_zero x = (if x = Some 0 then None else x)"

definition null_if_empty :: "string option \<Rightarrow> string option" where
  "null_if_empty x = (if x = Some [] then None else x)"

definition falsy_as_null :: "evo_row \<Rightarrow> evo_row" where
  "falsy_as_null row = row
     \<lparr>trigger_identifier := null_if_empty (trigger_identifier row),
      minimum_level := null_if_zero (minimum_level row),
      minimum_happiness := null_if_zero (minimum_happiness row),
      time_of_day := null_if_empty (time_of_day row),
      item_name := null_if_empty (item_name row),
      held_item_name := null_if_empty (held_item_name row),
      known_move_name := null_if_empty (known_move_name row)\<rparr>"

text \<open>An evolution row with a minimum level of zero and the level-up trigger.\<close>
definition level_zero_row :: evo_row where
  "level_zero_row =
     \<lparr>from_species_id = Some 1, from_identifier = Some ''a'', from_name = Some ''A'',
      to_species_id = 2, to_identifier = ''b'', to_name = Some ''B'',
      trigger_identifier = Some ''level-up'', minimum_level = Some 0,
      minimum_happiness = None, time_of_day = None, item_name = None,
      held_item_name = None, known_move_name = None\<rparr>"

text \<open>
  Every efficacy row against one of the defending types names an attacking type that has
  a localized name.
\<close>
definition attackers_named :: "db \<Rightarrow> type_row list \<Rightarrow> bool" where
  "attackers_named d types_rows =
     (\<forall>row \<in> set (efficacy_rows d (map t_id types_rows)).
        damage_type_id row \<in> t_id ` set (attack_types d))"

text \<open>
  The product of the damage factors (as fractions of 100) of one attacking type against
  the defending types, multiplied up from 1.0 in the order of the efficacy rows, and its
  rounding to two decimal places.
\<close>
definition factor_product :: "float_ops \<Rightarrow> db \<Rightarrow> type_row list \<Rightarrow> int \<Rightarrow> rat" where
  "factor_product fl d types_rows atk_id =
     foldl (\<lambda>f row. fl_times fl f (fl_ratio fl (damage_factor row))) 1
       (filter (\<lambda>row. damage_type_id row = atk_id) (efficacy_rows d (map t_id types_rows)))"

definition rounded_multiplier :: "float_ops \<Rightarrow> db \<Rightarrow> type_row list \<Rightarrow> type_row \<Rightarrow> rat" where
  "rounded_multiplier fl d types_rows atk =
     fl_round2 fl (factor_product fl d types_rows (t_id atk))"

definition entry_for :: "float_ops \<Rightarrow> db \<Rightarrow> type_row list \<Rightarrow> type_row \<Rightarrow> matchup_entry" where
  "entry_for fl d types_rows atk =
     \<lparr>me_identifier = t_identifier atk, me_name = t_name atk,
      me_multiplier = rounded_multiplier fl d types_rows atk,
      me_label = times_sign @ fl_format_g fl (rounded_multiplier fl d types_rows atk)\<rparr>"

text \<open>Newlines and form feeds replaced by spaces.\<close>
definition spaces_for_breaks :: "string \<Rightarrow> string" where
  "spaces_for_breaks s = map (\<lambda>c. if c = newline \<or> c = formfeed then CHR '' '' else c) s"

text \<open>A text without newline and form feed characters.\<close>
definition no_breaks :: "string \<Rightarrow> bool" where
  "no_breaks s = (newline \<notin> set s \<and> formfeed \<notin> set s)"

text \<open>
  A text that is one of the given source texts, or the empty text, with its newlines and
  form feeds replaced by spaces.
\<close>
definition cleaned_from :: "string set \<Rightarrow> string \<Rightarrow> bool" where
  "cleaned_from sources s = (\<exists>raw \<in> insert [] sources. s = spaces_for_breaks raw)"

text \<open>
  A \<open>pokemon_moves\<close> row of the given Form in the fixed context: version group 11
  (Black and White), learn method 1 (level-up).
\<close>
definition learned_in_context :: "int \<Rightarrow> pokemon_move_row \<Rightarrow> bool" where
  "learned_in_context pokemon_id pm =
     (pm_pokemon_id pm = pokemon_id \<and> pm_version_group_id pm = 11
      \<and> pm_pokemon_move_method_id pm = 1)"

text \<open>
  The navigation target below (above) a species id: the named species with the largest
  smaller (smallest larger) id, or none when no named species has a smaller (larger) id.
\<close>
definition nearest_below :: "db \<Rightarrow> int \<Rightarrow> nav_entry option \<Rightarrow> bool" where
  "nearest_below d species_id r =
     (case r of
        None \<Rightarrow> \<forall>q \<in> set (named_species d). \<not> nav_dex q < species_id
      | Some p \<Rightarrow> p \<in> set (named_species d) \<and> nav_dex p < species_id
          \<and> (\<forall>q \<in> set (named_species d). nav_dex q < species_id \<longrightarrow> nav_dex q \<le> nav_dex p))"

definition nearest_above :: "db \<Rightarrow> int \<Rightarrow> nav_entry option \<Rightarrow> bool" where
  "nearest_above d species_id r =
     (case r of
        None \<Rightarrow> \<forall>q \<in> set (named_species d). \<not> species_id < nav_dex q
      | Some n \<Rightarrow> n \<in> set (named_species d) \<and> species_id < nav_dex n
          \<and> (\<forall>q \<in> set (named_species d). species_id < nav_dex q \<longrightarrow> nav_dex n \<le> nav_dex q))"

text \<open>All Forms under a Species, in the order of their ids.\<close>
definition species_forms :: "db \<Rightarrow> int \<Rightarrow> pokemon_row list" where
  "species_forms d species_id =
     sort_key pk_id (filter (\<lambda>p. pk_species_id p = species_id) (pokemon d))"

text \<open>
  The Forms of a Species join without fan-out: every Form has at most one row in
  \<open>pokemon_forms\<close>, every such row at most one localized name, and the Species at most
  one localized name.
\<close>
definition forms_unambiguous :: "db \<Rightarrow> int \<Rightarrow> bool" where
  "forms_unambiguous d species_id =
     ((\<forall>p \<in> set (pokemon d). pk_species_id p = species_id \<longrightarrow>
         length (filter (\<lambda>pf. pf_pokemon_id pf = pk_id p) (pokemon_forms d)) \<le> 1)
      \<and> (\<forall>pf \<in> set (pokemon_forms d).
         length (filter (\<lambda>pfn. pfn_pokemon_form_id pfn = pf_id pf
                              \<and> pfn_local_language_id pfn = LANG_EN) (pokemon_form_names d)) \<le> 1)
      \<and> length (filter (\<lambda>psn. nm_id psn = species_id \<and> nm_lang psn = LANG_EN)
           (pokemon_species_names d)) \<le> 1)"

section \<open>Auxiliary facts\<close>

lemma get_pokemon_data_Some:
  assumes "get_pokemon_data f d i = Inr (Some v)"
  obtains base tm where
    "get_pokemon_basic d i = Some base"
    "stat_rows d (b_id base) \<noteq> []"
    "compute_type_matchups f d (type_rows d (b_id base)) = Inr tm"
    "v_dex v = b_species_id base"
    "v_stats v = map (stat_entry_of d) (stat_rows d (b_id base))"
    "v_abilities v = abilities_of d (b_id base)"
    "v_sprite_url v = sprite_url_of (b_id base)"
    "v_moves v = moves_of d (b_id base)"
    "v_flavor_text v = flavor_text_of d (b_species_id base)"
    "v_type_matchups v = tm"
    "v_forms v = forms_of d (b_species_id base)"
    "v_nav_prev v = nav_prev_of d (b_species_id base)"
    "v_nav_next v = nav_next_of d (b_species_id base)"
    "v_encounters v = encounters_of d (b_id base)"
  using assms unfolding get_pokemon_data_def Let_def
  by (auto split: option.splits sum.splits if_splits)

lemma stat_percent_floor: "stat_percent v = max 5 (min (v * 100 div 180) 100)"
proof (cases "0 \<le> v")
  case True
  have "(of_int v / of_int 180 * 100 :: rat) = of_int (v * 100) / of_int 180"
    by simp
  then have "\<lfloor>of_int v / of_int 180 * 100 :: rat\<rfloor> = v * 100 div 180"
    by (simp only: floor_divide_of_int_eq)
  moreover have "(0::rat) \<le> of_int v / of_int 180 * 100"
    using True by simp
  ultimately show ?thesis
    by (simp add: stat_percent_def MAX_STAT_VIS_def py_int_def)
next
  case False
  then have neg: "(of_int v / of_int 180 * 100 :: rat) < 0"
    by (simp add: divide_neg_pos)
  then have "\<lceil>of_int v / of_int 180 * 100 :: rat\<rceil> \<le> 0"
    by (simp add: ceiling_le_zero)
  moreover have "v * 100 div 180 < 0"
    using False by (simp add: div_neg_pos_less0)
  ultimately show ?thesis
    using neg by (simp add: stat_percent_def MAX_STAT_VIS_def py_int_def)
qed

lemma evo_parts_spec: "evo_parts row = spec_clauses (falsy_as_null row)"
  unfolding evo_parts_def spec_clauses_def
  by (intro arg_cong2 [where f = "(@)"])
     (auto simp: falsy_as_null_def null_if_zero_def null_if_empty_def truthy_int_def
        truthy_str_def or_empty_def split: option.splits)

lemma left_join_cases:
  assumes "x \<in> set (left_join on t)"
  shows "x = None \<or> (\<exists>y \<in> set t. x = Some y \<and> on y)"
proof (cases "filter on t")
  case Nil
  with assms show ?thesis by (simp add: left_join_def)
next
  case (Cons m ms)
  with assms have "x \<in> Some ` set (filter on t)"
    by (auto simp: left_join_def)
  then show ?thesis by auto
qed

lemma left_join_nonempty: "left_join on t \<noteq> []"
  by (simp add: left_join_def split: list.splits)

lemma left_join_ex: "\<exists>x. x \<in> set (left_join on t)"
  using left_join_nonempty [of on t] by (cases "left_join on t") auto

lemma fetchone_take_Suc_0: "fetchone (take (Suc 0) xs) = fetchone xs"
  by (cases xs) (simp_all add: fetchone_def)

lemma fetchone_Some_mem: "fetchone xs = Some x \<Longrightarrow> x \<in> set xs"
  by (cases xs) (simp_all add: fetchone_def)

lemma strip_breaks_spaces: "strip_breaks s = spaces_for_breaks s"
  by (simp add: strip_breaks_def spaces_for_breaks_def replace_def)

lemma space_not_break: "CHR '' '' \<noteq> newline" "CHR '' '' \<noteq> formfeed"
  by code_simp+

lemma no_breaks_spaces: "no_breaks (spaces_for_breaks s)"
  using space_not_break by (auto simp: no_breaks_def spaces_for_breaks_def)

lemma spaces_for_breaks_Nil: "spaces_for_breaks [] = []"
  by (simp add: spaces_for_breaks_def)

lemma flavor_text_of_cleaned:
  "cleaned_from (sft_flavor_text ` set (pokemon_species_flavor_text d)) (flavor_text_of d sid)"
proof -
  let ?q = "sort_key (\<lambda>r. - sft_version_id r)
              (filter (\<lambda>r. sft_species_id r = sid \<and> sft_language_id r = LANG_EN)
                 (pokemon_species_flavor_text d))"
  show ?thesis
  proof (cases "fetchone ?q")
    case None
    then show ?thesis
      by (simp add: flavor_text_of_def fetchone_take_Suc_0 cleaned_from_def spaces_for_breaks_Nil)
  next
    case (Some ft)
    then have "ft \<in> set (pokemon_species_flavor_text d)"
      by (auto dest: fetchone_Some_mem)
    with Some show ?thesis
      by (auto simp: flavor_text_of_def fetchone_take_Suc_0 cleaned_from_def strip_breaks_spaces)
  qed
qed

lemma ability_flavor_cleaned:
  "cleaned_from (aft_flavor_text ` set (ability_flavor_text d))
     (strip_breaks (or_empty (ability_flavor d a)))"
proof (cases "ability_flavor d a")
  case None
  then show ?thesis
    by (simp add: or_empty_def cleaned_from_def strip_breaks_spaces)
next
  case (Some raw)
  then have "raw \<in> aft_flavor_text ` set (ability_flavor_text d)"
    by (auto simp: ability_flavor_def fetchone_take_Suc_0 dest!: fetchone_Some_mem)
  with Some show ?thesis
    by (auto simp: or_empty_def cleaned_from_def strip_breaks_spaces)
qed

lemma abilities_of_cleaned:
  assumes "a \<in> set (abilities_of d pid)"
  shows "cleaned_from (aft_flavor_text ` set (ability_flavor_text d)) (ab_flavor_text a)"
  using assms ability_flavor_cleaned by (auto simp: abilities_of_def)

lemma move_join_effect:
  assumes "r \<in> set (move_join d pm m)"
  shows "mq_short_effect r = None \<or> mq_short_effect r \<in> mep_short_effect ` set (move_effect_prose d)"
proof -
  from assms obtain mep where
    mep: "mep \<in> set (left_join (\<lambda>mep. Some (mep_move_effect_id mep) = m_effect_id m
            \<and> mep_local_language_id mep = LANG_EN) (move_effect_prose d))"
    and r: "mq_short_effect r = Option.bind mep mep_short_effect"
    by (auto simp: move_join_def)
  from left_join_cases [OF mep] r show ?thesis by auto
qed

lemma set_move_rows:
  "set (move_rows d pid) =
     (\<Union>pm \<in> {pm \<in> set (pokemon_moves d). learned_in_context pid pm}.
      \<Union>m \<in> {m \<in> set (moves d). m_id m = pm_move_id pm}. set (move_join d pm m))"
  unfolding move_rows_def set_sort learned_in_context_def BW_VERSION_GROUP_ID_def
    LEVELUP_METHOD_ID_def
  by (auto split: if_splits)

lemma move_join_key:
  assumes "r \<in> set (move_join d pm m)"
  shows "mq_level r = pm_level pm \<and> mq_move_identifier r = m_identifier m"
  using assms by (auto simp: move_join_def)

lemma move_join_ex: "\<exists>r. r \<in> set (move_join d pm m)"
proof -
  obtain mn where "mn \<in> set (left_join (\<lambda>mn. nm_id mn = m_id m \<and> nm_lang mn = LANG_EN) (move_names d))"
    using left_join_ex by blast
  moreover obtain t where "t \<in> set (left_join (\<lambda>t. Some (row_id t) = m_type_id m) (types d))"
    using left_join_ex by blast
  moreover obtain tn where "tn \<in> set (left_join (\<lambda>tn. Some (nm_id tn) = map_option row_id t
      \<and> nm_lang tn = LANG_EN) (type_names d))"
    using left_join_ex by blast
  moreover obtain mdc where "mdc \<in> set (left_join (\<lambda>mdc. Some (row_id mdc) = m_damage_class_id m)
      (move_damage_classes d))"
    using left_join_ex by blast
  moreover obtain mdcp where "mdcp \<in> set (left_join (\<lambda>mdcp. Some (nm_id mdcp) = map_option row_id mdc
      \<and> nm_lang mdcp = LANG_EN) (move_damage_class_prose d))"
    using left_join_ex by blast
  moreover obtain mep where "mep \<in> set (left_join (\<lambda>mep. Some (mep_move_effect_id mep) = m_effect_id m
      \<and> mep_local_language_id mep = LANG_EN) (move_effect_prose d))"
    using left_join_ex by blast
  ultimately show ?thesis
    unfolding move_join_def by fastforce
qed

lemma sorted_move_rows:
  "sorted (map (\<lambda>r. (mq_level r, mq_move_identifier r)) (move_rows d pid))"
  unfolding move_rows_def by (rule sorted_sort_key)

lemma these_image_Some: "Some x \<in> f ` A \<Longrightarrow> x \<in> Option.these (f ` A)"
  by (simp add: Option.these_def image_iff) (metis option.sel)

lemma moves_of_cleaned:
  assumes "mv \<in> set (moves_of d pid)"
  shows "cleaned_from (Option.these (mep_short_effect ` set (move_effect_prose d))) (mv_effect mv)"
proof -
  from assms obtain r where "r \<in> set (move_rows d pid)" and mv: "mv = move_entry_of r"
    by (auto simp: moves_of_def)
  then obtain pm m where r: "r \<in> set (move_join d pm m)"
    unfolding set_move_rows by blast
  have e: "mv_effect mv = spaces_for_breaks (or_empty (mq_short_effect r))"
    by (simp add: mv move_entry_of_def strip_breaks_spaces)
  show ?thesis
  proof (cases "mq_short_effect r")
    case None
    then show ?thesis by (simp add: e or_empty_def cleaned_from_def)
  next
    case (Some raw)
    with move_join_effect [OF r]
    have "raw \<in> Option.these (mep_short_effect ` set (move_effect_prose d))"
      by (simp add: these_image_Some)
    with Some show ?thesis by (auto simp: e or_empty_def cleaned_from_def)
  qed
qed

lemma cleaned_no_breaks: "cleaned_from S s \<Longrightarrow> no_breaks s"
  by (auto simp: cleaned_from_def no_breaks_spaces)

lemma evaluated_view:
  assumes "map_sum id (map_option g) x = Inr (Some y)"
  obtains v where "x = Inr (Some v)" "g v = y"
  using assms by (cases x) auto

lemma add_encounter_map_of:
  "map_of (add_encounter m (ver, loc)) =
     (map_of m)(ver \<mapsto> insert loc (case map_of m ver of None \<Rightarrow> {} | Some s \<Rightarrow> s))"
  by (induction m) (auto simp: fun_eq_iff)

lemma add_encounter_keys:
  "fst ` set (add_encounter m (ver, loc)) = insert ver (fst ` set m)"
  by (simp add: dom_map_of_conv_image_fst [symmetric] add_encounter_map_of)

lemma add_encounter_distinct:
  "distinct (map fst m) \<Longrightarrow> distinct (map fst (add_encounter m (ver, loc)))"
  by (induction m) (auto simp: add_encounter_keys)

lemma encounter_fold:
  assumes "distinct (map fst m0)"
    and "\<And>k. map_of m0 k = (if k \<in> fst ` set rows0 then Some {l. (k, l) \<in> set rows0} else None)"
  shows "distinct (map fst (fold (\<lambda>r m. add_encounter m r) rows m0))
       \<and> (\<forall>k. map_of (fold (\<lambda>r m. add_encounter m r) rows m0) k =
             (if k \<in> fst ` set (rows0 @ rows) then Some {l. (k, l) \<in> set (rows0 @ rows)} else None))"
  using assms
proof (induction rows arbitrary: m0 rows0)
  case Nil
  then show ?case by simp
next
  case (Cons r rows)
  obtain ver loc where r: "r = (ver, loc)" by (cases r)
  have d: "distinct (map fst (add_encounter m0 r))"
    using Cons.prems(1) by (simp add: r add_encounter_distinct)
  have m: "map_of (add_encounter m0 r) k =
      (if k \<in> fst ` set (rows0 @ [r]) then Some {l. (k, l) \<in> set (rows0 @ [r])} else None)" for k
    unfolding r add_encounter_map_of using Cons.prems(2) [of k] Cons.prems(2) [of ver]
    by (auto simp: image_iff)
  from Cons.IH [OF d m] show ?case by simp
qed

lemma encounter_map_distinct: "distinct (map fst (encounter_map rows))"
  using encounter_fold [of "[]" "[]" rows] by (simp add: encounter_map_def)

lemma encounter_map_lookup:
  "map_of (encounter_map rows) k =
     (if k \<in> fst ` set rows then Some {l. (k, l) \<in> set rows} else None)"
  using encounter_fold [of "[]" "[]" rows] by (simp add: encounter_map_def)

lemma encounter_map_keys: "fst ` set (encounter_map rows) = fst ` set rows"
proof -
  have "fst ` set (encounter_map rows) = dom (map_of (encounter_map rows))"
    by (simp add: dom_map_of_conv_image_fst)
  also have "\<dots> = fst ` set rows"
    by (auto simp: dom_def encounter_map_lookup)
  finally show ?thesis .
qed

lemma encounter_map_entry:
  assumes "(k, s) \<in> set (encounter_map rows)"
  shows "s = set (map snd (filter (\<lambda>r. fst r = k) rows))"
proof -
  from assms have "map_of (encounter_map rows) k = Some s"
    by (simp add: encounter_map_distinct)
  then have "s = {l. (k, l) \<in> set rows}"
    by (simp add: encounter_map_lookup split: if_splits)
  also have "\<dots> = set (map snd (filter (\<lambda>r. fst r = k) rows))"
    by force
  finally show ?thesis .
qed

lemma distinct_map_sort_key: "distinct (map f (sort_key f xs)) = distinct (map f xs)"
  by (induction xs) (simp_all add: distinct_insort_key)

lemma encounters_of_versions:
  "map enc_version (map (\<lambda>(ver, locs). \<lparr>enc_version = ver,
       enc_locations = take 5 (sorted_list_of_set locs)\<rparr>) m) = map fst m"
  by (induction m) auto

lemma encounters_of_props:
  fixes d pid
  defines "rows \<equiv> encounter_rows d pid"
  shows "sorted (map enc_version (encounters_of d pid))"
    and "distinct (map enc_version (encounters_of d pid))"
    and "set (map enc_version (encounters_of d pid)) = fst ` set rows"
    and "e \<in> set (encounters_of d pid) \<Longrightarrow>
           enc_locations e = take 5 (sorted_list_of_set
             (set (map snd (filter (\<lambda>r. fst r = enc_version e) rows))))"
proof -
  let ?g = "\<lambda>(ver, locs). \<lparr>enc_version = ver, enc_locations = take 5 (sorted_list_of_set locs)\<rparr>"
  have eq: "encounters_of d pid = sort_key enc_version (map ?g (encounter_map rows))"
    by (simp add: encounters_of_def rows_def)
  show "sorted (map enc_version (encounters_of d pid))"
    unfolding eq by (rule sorted_sort_key)
  show "distinct (map enc_version (encounters_of d pid))"
    unfolding eq distinct_map_sort_key encounters_of_versions
    by (rule encounter_map_distinct)
  have "set (map enc_version (encounters_of d pid)) = set (map enc_version (map ?g (encounter_map rows)))"
    unfolding eq by (simp only: set_map set_sort)
  also have "\<dots> = set (map fst (encounter_map rows))"
    by (simp only: encounters_of_versions)
  also have "\<dots> = fst ` set rows"
    by (simp only: set_map encounter_map_keys)
  finally show "set (map enc_version (encounters_of d pid)) = fst ` set rows" .
  show "enc_locations e = take 5 (sorted_list_of_set
             (set (map snd (filter (\<lambda>r. fst r = enc_version e) rows))))"
    if "e \<in> set (encounters_of d pid)"
  proof -
    from that obtain k s where ks: "(k, s) \<in> set (encounter_map rows)" and e: "e = ?g (k, s)"
      unfolding eq by auto
    from encounter_map_entry [OF ks] e show ?thesis by simp
  qed
qed

lemma fetchone_None_iff: "fetchone xs = None \<longleftrightarrow> xs = []"
  by (cases xs) (simp_all add: fetchone_def)

lemma sort_key_Nil_iff: "sort_key k xs = [] \<longleftrightarrow> xs = []"
  using length_sort [of k xs] by (cases xs) auto

lemma fetchone_sort_key_least:
  assumes "fetchone (sort_key k xs) = Some x"
  shows "x \<in> set xs \<and> (\<forall>y \<in> set xs. k x \<le> k y)"
proof -
  from assms obtain rest where s: "sort_key k xs = x # rest"
    by (cases "sort_key k xs") (simp_all add: fetchone_def)
  have "sorted (map k (sort_key k xs))" by (rule sorted_sort_key)
  then have "\<forall>y \<in> set (x # rest). k x \<le> k y"
    unfolding s by auto
  moreover have "set (x # rest) = set xs"
    unfolding s [symmetric] by simp
  ultimately show ?thesis by auto
qed

lemma nav_prev_of_nearest: "nearest_below d sid (nav_prev_of d sid)"
proof (cases "nav_prev_of d sid")
  case None
  then have "filter (\<lambda>r. nav_dex r < sid) (named_species d) = []"
    by (simp add: nav_prev_of_def fetchone_take_Suc_0 fetchone_None_iff sort_key_Nil_iff)
  then show ?thesis
    by (simp add: nearest_below_def None filter_empty_conv)
next
  case (Some p)
  then have "fetchone (sort_key (\<lambda>r. - nav_dex r)
      (filter (\<lambda>r. nav_dex r < sid) (named_species d))) = Some p"
    by (simp add: nav_prev_of_def fetchone_take_Suc_0)
  from fetchone_sort_key_least [OF this] show ?thesis
    by (auto simp: nearest_below_def Some)
qed

lemma nav_next_of_nearest: "nearest_above d sid (nav_next_of d sid)"
proof (cases "nav_next_of d sid")
  case None
  then have "filter (\<lambda>r. nav_dex r > sid) (named_species d) = []"
    by (simp add: nav_next_of_def fetchone_take_Suc_0 fetchone_None_iff sort_key_Nil_iff)
  then show ?thesis
    by (simp add: nearest_above_def None filter_empty_conv)
next
  case (Some n)
  then have "fetchone (sort_key nav_dex
      (filter (\<lambda>r. nav_dex r > sid) (named_species d))) = Some n"
    by (simp add: nav_next_of_def fetchone_take_Suc_0)
  from fetchone_sort_key_least [OF this] show ?thesis
    by (auto simp: nearest_above_def Some)
qed

lemma fetchone_take_mem: "fetchone (take n xs) = Some x \<Longrightarrow> x \<in> set xs"
  by (metis fetchone_Some_mem in_set_takeD)

lemma get_pokemon_basic_named:
  assumes "get_pokemon_basic d i = Some base"
  shows "\<exists>psn \<in> set (pokemon_species_names d).
           nm_id psn = b_species_id base \<and> nm_lang psn = LANG_EN"
  using assms [unfolded get_pokemon_basic_def, THEN fetchone_take_mem]
  by (simp split: if_splits) fastforce

lemma named_species_mem:
  assumes "ps \<in> set (pokemon_species d)" "psn \<in> set (pokemon_species_names d)"
    "nm_id psn = ps_id ps" "nm_lang psn = LANG_EN"
  shows "\<exists>q \<in> set (named_species d). nav_dex q = ps_id ps"
proof -
  have "\<lparr>nav_dex = ps_id ps, nav_identifier = ps_identifier ps, nav_name = nm_name psn\<rparr>
      \<in> set (named_species d)"
    unfolding named_species_def using assms by (simp) blast
  then show ?thesis by (rule rev_bexI) simp
qed

lemma view_species_named:
  assumes "get_pokemon_data f d i = Inr (Some v)" "v_dex v \<in> ps_id ` set (pokemon_species d)"
  shows "\<exists>q \<in> set (named_species d). nav_dex q = v_dex v"
proof -
  from assms(1) obtain base where b: "get_pokemon_basic d i = Some base"
    and s: "v_dex v = b_species_id base"
    by (rule get_pokemon_data_Some)
  from get_pokemon_basic_named [OF b] obtain psn where
    "psn \<in> set (pokemon_species_names d)" "nm_id psn = v_dex v" "nm_lang psn = LANG_EN"
    unfolding s by blast
  moreover from assms(2) obtain ps where "ps \<in> set (pokemon_species d)" "ps_id ps = v_dex v"
    by auto
  ultimately show ?thesis using named_species_mem [of ps d psn] by simp
qed

lemma apply_efficacy_Inr:
  assumes "\<forall>row \<in> set rows. damage_type_id row \<in> dom m"
  shows "apply_efficacy fl m rows =
     Inr (\<lambda>a. map_option
            (\<lambda>x. foldl (\<lambda>f row. fl_times fl f (fl_ratio fl (damage_factor row))) x
                   (filter (\<lambda>row. damage_type_id row = a) rows)) (m a))"
  using assms
proof (induction rows arbitrary: m)
  case Nil
  have "(\<lambda>a. map_option (\<lambda>x. x) (m a)) = m"
    by (rule ext) (simp add: option.map_ident)
  then show ?case by (simp add: option.map_ident)
next
  case (Cons row rows)
  let ?step = "\<lambda>f row. fl_times fl f (fl_ratio fl (damage_factor row))"
  let ?P = "\<lambda>rs a x. foldl ?step x (filter (\<lambda>row. damage_type_id row = a) rs)"
  from Cons.prems obtain f where f: "m (damage_type_id row) = Some f"
    by auto
  let ?m' = "m(damage_type_id row \<mapsto> ?step f row)"
  have "\<forall>r \<in> set rows. damage_type_id r \<in> dom ?m'"
    using Cons.prems by auto
  then have ih: "apply_efficacy fl ?m' rows = Inr (\<lambda>a. map_option (?P rows a) (?m' a))"
    by (rule Cons.IH)
  have step: "map_option (?P rows a) (?m' a) = map_option (?P (row # rows) a) (m a)" for a
    by (cases "a = damage_type_id row") (simp_all add: f)
  have "apply_efficacy fl m (row # rows) = apply_efficacy fl ?m' rows"
    by (simp add: f)
  also note ih
  finally show ?case
    unfolding step .
qed

lemma map_filter_cong2:
  assumes "\<And>x. x \<in> set xs \<Longrightarrow> P x = Q x" "\<And>x. x \<in> set xs \<Longrightarrow> f x = g x"
  shows "map f (filter P xs) = map g (filter Q xs)"
  using assms by (induction xs) auto

lemma initial_factors:
  "map_of (map (\<lambda>row. (t_id row, 1 :: rat)) atk) a = (if a \<in> t_id ` set atk then Some 1 else None)"
  by (induction atk) auto

lemma classify_filters:
  "classify fl factors atk (ws, rs, im) =
     (ws @ map (matchup_entry_of fl factors)
             (filter (\<lambda>r. multiplier fl factors (t_id r) > float_1_01
                          \<and> multiplier fl factors (t_id r) \<noteq> 0) atk),
      rs @ map (matchup_entry_of fl factors)
             (filter (\<lambda>r. multiplier fl factors (t_id r) < float_0_99
                          \<and> \<not> multiplier fl factors (t_id r) > float_1_01
                          \<and> multiplier fl factors (t_id r) \<noteq> 0) atk),
      im @ map (matchup_entry_of fl factors)
             (filter (\<lambda>r. multiplier fl factors (t_id r) = 0) atk))"
  by (induction atk arbitrary: ws rs im) (auto simp: Let_def)

lemma float_thresholds: "(0 :: rat) < float_0_99" "float_0_99 < float_1_01"
  by (simp_all add: float_0_99_def float_1_01_def)

lemma compute_type_matchups_classified:
  assumes "types_rows \<noteq> []" "attackers_named d types_rows"
  shows "compute_type_matchups fl d types_rows = Inr
     \<lparr>weak = sort_key (\<lambda>x. - me_multiplier x) (map (entry_for fl d types_rows)
         (filter (\<lambda>a. rounded_multiplier fl d types_rows a > float_1_01) (attack_types d))),
      resist = sort_key me_multiplier (map (entry_for fl d types_rows)
         (filter (\<lambda>a. rounded_multiplier fl d types_rows a < float_0_99
                      \<and> rounded_multiplier fl d types_rows a \<noteq> 0) (attack_types d))),
      immune = map (entry_for fl d types_rows)
         (filter (\<lambda>a. rounded_multiplier fl d types_rows a = 0) (attack_types d))\<rparr>"
proof -
  let ?atk = "attack_types d"
  let ?init = "map_of (map (\<lambda>row. (t_id row, 1 :: rat)) ?atk)"
  let ?rows = "efficacy_rows d (map t_id types_rows)"
  let ?factors = "\<lambda>a. map_option
      (\<lambda>x. foldl (\<lambda>f row. fl_times fl f (fl_ratio fl (damage_factor row))) x
             (filter (\<lambda>row. damage_type_id row = a) ?rows)) (?init a)"
  have dom: "dom ?init = t_id ` set ?atk"
    by (auto simp: dom_def initial_factors)
  from assms(2) have "\<forall>row \<in> set ?rows. damage_type_id row \<in> dom ?init"
    unfolding dom attackers_named_def .
  then have ap: "apply_efficacy fl ?init ?rows = Inr ?factors"
    by (rule apply_efficacy_Inr)
  have mult: "multiplier fl ?factors (t_id a) = rounded_multiplier fl d types_rows a"
    if "a \<in> set ?atk" for a
    using that by (simp add: multiplier_def rounded_multiplier_def factor_product_def initial_factors)
  have entry: "matchup_entry_of fl ?factors a = entry_for fl d types_rows a"
    if "a \<in> set ?atk" for a
    using mult [OF that] by (simp add: matchup_entry_of_def entry_for_def)
  have w: "map (matchup_entry_of fl ?factors)
        (filter (\<lambda>r. multiplier fl ?factors (t_id r) > float_1_01
                     \<and> multiplier fl ?factors (t_id r) \<noteq> 0) ?atk)
      = map (entry_for fl d types_rows)
        (filter (\<lambda>a. rounded_multiplier fl d types_rows a > float_1_01) ?atk)"
    using float_thresholds by (intro map_filter_cong2) (auto simp: mult entry)
  have r: "map (matchup_entry_of fl ?factors)
        (filter (\<lambda>r. multiplier fl ?factors (t_id r) < float_0_99
                     \<and> \<not> multiplier fl ?factors (t_id r) > float_1_01
                     \<and> multiplier fl ?factors (t_id r) \<noteq> 0) ?atk)
      = map (entry_for fl d types_rows)
        (filter (\<lambda>a. rounded_multiplier fl d types_rows a < float_0_99
                     \<and> rounded_multiplier fl d types_rows a \<noteq> 0) ?atk)"
    using float_thresholds by (intro map_filter_cong2) (auto simp: mult entry)
  have i: "map (matchup_entry_of fl ?factors)
        (filter (\<lambda>r. multiplier fl ?factors (t_id r) = 0) ?atk)
      = map (entry_for fl d types_rows)
        (filter (\<lambda>a. rounded_multiplier fl d types_rows a = 0) ?atk)"
    by (rule map_filter_cong2) (simp_all add: mult entry)
  have c: "classify fl ?factors ?atk ([], [], []) =
      (map (entry_for fl d types_rows)
         (filter (\<lambda>a. rounded_multiplier fl d types_rows a > float_1_01) ?atk),
       map (entry_for fl d types_rows)
         (filter (\<lambda>a. rounded_multiplier fl d types_rows a < float_0_99
                      \<and> rounded_multiplier fl d types_rows a \<noteq> 0) ?atk),
       map (entry_for fl d types_rows)
         (filter (\<lambda>a. rounded_multiplier fl d types_rows a = 0) ?atk))"
    unfolding classify_filters w r i by simp
  show ?thesis
    unfolding compute_type_matchups_def Let_def using assms(1)
    by (simp only: ap c if_False sum.case prod.case)
qed

lemma exclusive_filters_length:
  assumes "\<And>x. \<not> (P x \<and> Q x)" "\<And>x. \<not> (P x \<and> R x)" "\<And>x. \<not> (Q x \<and> R x)"
  shows "length (filter P xs) + length (filter Q xs) + length (filter R xs) \<le> length xs"
proof (induction xs)
  case Nil
  show ?case by simp
next
  case (Cons x xs)
  with assms [of x] show ?case by auto
qed

lemma entry_for_multiplier:
  "me_multiplier (entry_for fl d types_rows a) = rounded_multiplier fl d types_rows a"
  by (simp add: entry_for_def)

lemma compute_type_matchups_Inr:
  assumes "attackers_named d types_rows"
  shows "\<exists>tm. compute_type_matchups fl d types_rows = Inr tm"
proof (cases "types_rows = []")
  case True
  then show ?thesis by (simp add: compute_type_matchups_def)
next
  case False
  from compute_type_matchups_classified [OF False assms] show ?thesis by blast
qed

lemma flavor_text_of_missing:
  assumes "filter (\<lambda>r. sft_species_id r = sid \<and> sft_language_id r = LANG_EN)
             (pokemon_species_flavor_text d) = []"
  shows "flavor_text_of d sid = []"
  by (simp add: flavor_text_of_def assms fetchone_def)

lemma get_pokemon_data_no_species:
  assumes "get_pokemon_data f d i = Inr (Some v)" "get_pokemon_basic d i = Some base"
    "species_row_of d (b_species_id base) = None"
  shows "v_growth_rate v = None \<and> v_capture_rate v = None \<and> v_base_happiness v = None
       \<and> v_generation v = None \<and> v_region v = None \<and> v_evolutions v = []"
  using assms
  by (auto simp: get_pokemon_data_def Let_def evolution_edges_def truthy_int_def
      split: if_splits sum.splits)

lemma get_pokemon_data_composes:
  assumes "get_pokemon_basic d i = Some base" "stat_rows d (b_id base) \<noteq> []"
    "compute_type_matchups f d (type_rows d (b_id base)) = Inr tm"
  shows "\<exists>v. get_pokemon_data f d i = Inr (Some v)"
  using assms by (simp add: get_pokemon_data_def Let_def)

lemma concat_map_guard:
  "concat (map (\<lambda>x. if P x then [f x] else []) xs) = map f (filter P xs)"
  by (induction xs) auto

lemma concat_map_Nil: "concat (map (\<lambda>x. []) xs) = []"
  by (induction xs) auto

lemma left_join_single:
  assumes "length (filter on t) \<le> 1"
  shows "\<exists>x. left_join on t = [x]"
proof (cases "filter on t")
  case Nil
  then show ?thesis by (simp add: left_join_def)
next
  case (Cons m ms)
  with assms have "ms = []" by simp
  with Cons show ?thesis by (simp add: left_join_def)
qed

lemma filter_single:
  assumes "length (filter P xs) \<le> 1" "x \<in> set xs" "P x"
  shows "filter P xs = [x]"
proof -
  from assms(2,3) have "x \<in> set (filter P xs)" by simp
  with assms(1) show ?thesis
    by (cases "filter P xs") auto
qed

lemma form_join_single:
  assumes u: "forms_unambiguous d sid"
    and p: "p \<in> set (pokemon d)" "pk_species_id p = sid"
    and n: "psn \<in> set (pokemon_species_names d)" "nm_id psn = sid" "nm_lang psn = LANG_EN"
  shows "\<exists>e. form_join d p = [e] \<and> fm_identifier e = pk_identifier p
           \<and> fm_is_default e = (pk_is_default p \<noteq> 0)"
proof -
  from u p have "length (filter (\<lambda>pf. pf_pokemon_id pf = pk_id p) (pokemon_forms d)) \<le> 1"
    by (simp add: forms_unambiguous_def)
  then obtain pf where pf: "left_join (\<lambda>pf. pf_pokemon_id pf = pk_id p) (pokemon_forms d) = [pf]"
    using left_join_single by blast
  let ?on = "\<lambda>pfn. Some (pfn_pokemon_form_id pfn) = map_option pf_id pf
                 \<and> pfn_local_language_id pfn = LANG_EN"
  have "length (filter ?on (pokemon_form_names d)) \<le> 1"
  proof (cases pf)
    case None
    then show ?thesis by simp
  next
    case (Some pfr)
    have "pf \<in> set (left_join (\<lambda>pf. pf_pokemon_id pf = pk_id p) (pokemon_forms d))"
      by (simp add: pf)
    from left_join_cases [OF this] Some have "pfr \<in> set (pokemon_forms d)"
      by auto
    with u show ?thesis
      by (simp add: forms_unambiguous_def Some)
  qed
  then obtain pfn where pfn: "left_join ?on (pokemon_form_names d) = [pfn]"
    using left_join_single by blast
  from u n p(2)
  have s: "filter (\<lambda>psn. nm_id psn = pk_species_id p \<and> nm_lang psn = LANG_EN)
      (pokemon_species_names d) = [psn]"
    by (intro filter_single) (simp_all add: forms_unambiguous_def)
  have "form_join d p =
      [\<lparr>fm_identifier = pk_identifier p,
        fm_name = coalesce (Option.bind pfn pfn_pokemon_name) (nm_name psn),
        fm_is_default = (pk_is_default p \<noteq> 0)\<rparr>]"
    unfolding form_join_def by (simp add: pf pfn concat_map_guard s)
  then show ?thesis by simp
qed



lemma form_comprehension:
  assumes "\<And>p. p \<in> set xs \<Longrightarrow> sp p \<Longrightarrow> J p = [g p]"
  shows "concat (map (\<lambda>p. concat (map (\<lambda>r. if sp p then [(k p, r)] else []) (J p))) xs)
       = map (\<lambda>p. (k p, g p)) (filter sp xs)"
  using assms
proof (induction xs)
  case Nil
  show ?case by simp
next
  case (Cons x xs)
  then have ih: "concat (map (\<lambda>p. concat (map (\<lambda>r. if sp p then [(k p, r)] else []) (J p))) xs)
       = map (\<lambda>p. (k p, g p)) (filter sp xs)"
    by simp
  show ?case
  proof (cases "sp x")
    case True
    with Cons.prems [of x] have "J x = [g x]" by simp
    with True ih show ?thesis by simp
  next
    case False
    with ih show ?thesis by (simp add: concat_map_Nil)
  qed
qed

lemma insort_key_map:
  "insort_key f (h x) (map h ys) = map h (insort_key (\<lambda>y. f (h y)) x ys)"
  by (induction ys) auto

lemma sort_key_map: "sort_key f (map h xs) = map h (sort_key (\<lambda>y. f (h y)) xs)"
  by (induction xs) (simp_all add: insort_key_map)



lemma form_rows_unambiguous:
  assumes u: "forms_unambiguous d sid"
    and n: "psn \<in> set (pokemon_species_names d)" "nm_id psn = sid" "nm_lang psn = LANG_EN"
  shows "length (form_rows d sid) = length (species_forms d sid)
       \<and> map fm_identifier (form_rows d sid) = map pk_identifier (species_forms d sid)
       \<and> map fm_is_default (form_rows d sid)
           = map (\<lambda>p. pk_is_default p \<noteq> 0) (species_forms d sid)
       \<and> list_all2 (\<lambda>e p. form_join d p = [e]) (form_rows d sid) (species_forms d sid)"
proof -
  let ?sp = "\<lambda>p. pk_species_id p = sid"
  define g where "g = (\<lambda>p. hd (form_join d p))"
  have single: "form_join d p = [g p] \<and> fm_identifier (g p) = pk_identifier p
           \<and> fm_is_default (g p) = (pk_is_default p \<noteq> 0)"
    if "p \<in> set (pokemon d)" "?sp p" for p
    using form_join_single [OF u that n] unfolding g_def by auto
  have comp: "[(pk_id p, r). p \<leftarrow> pokemon d, r \<leftarrow> form_join d p, pk_species_id p = sid]
      = map (\<lambda>p. (pk_id p, g p)) (filter ?sp (pokemon d))"
    by (rule form_comprehension [where J = "form_join d" and g = g and k = pk_id and sp = ?sp])
       (simp add: single)
  have rows: "form_rows d sid = map g (species_forms d sid)"
    unfolding form_rows_def species_forms_def comp
    by (simp add: sort_key_map o_def)
  have mem: "p \<in> set (pokemon d) \<and> ?sp p" if "p \<in> set (species_forms d sid)" for p
    using that by (simp add: species_forms_def)
  have 1: "length (form_rows d sid) = length (species_forms d sid)"
    by (simp add: rows)
  have 2: "map fm_identifier (form_rows d sid) = map pk_identifier (species_forms d sid)"
    unfolding rows by (simp add: mem single)
  have 3: "map fm_is_default (form_rows d sid)
           = map (\<lambda>p. pk_is_default p \<noteq> 0) (species_forms d sid)"
    unfolding rows by (simp add: mem single)
  have 4: "list_all2 (\<lambda>e p. form_join d p = [e]) (form_rows d sid) (species_forms d sid)"
    unfolding rows by (simp add: list_all2_map1 list_all2_same mem single)
  from 1 2 3 4 show ?thesis by simp
qed

section \<open>Stat normalizer\<close>

text \<open>
  Claim C2, as the code has it: in a composed view the \<open>value\<close> fields are the raw base
  stats unchanged, and every visual percentage is the quotient value / 180 * 100 rounded
  \<^emph>\<open>down\<close> (the code truncates with \<open>int\<close>, it does not round to nearest), clamped to a
  minimum of 5 and a maximum of 100.
\<close>
theorem stats_percent_floor_clamped:
  assumes "get_pokemon_data fl d identifier = Inr (Some v)"
  shows "\<exists>base. get_pokemon_basic d identifier = Some base
           \<and> map se_value (v_stats v) = map sq_base_stat (stat_rows d (b_id base))
           \<and> (\<forall>e \<in> set (v_stats v).
                 se_percent e = max 5 (min (se_value e * 100 div 180) 100)
                 \<and> 5 \<le> se_percent e \<and> se_percent e \<le> 100)"
proof -
  from assms obtain base where b: "get_pokemon_basic d identifier = Some base"
    and s: "v_stats v = map (stat_entry_of d) (stat_rows d (b_id base))"
    by (rule get_pokemon_data_Some)
  have e: "se_value (stat_entry_of d row) = sq_base_stat row
         \<and> se_percent (stat_entry_of d row) = stat_percent (sq_base_stat row)" for row
    by (simp add: stat_entry_of_def split: option.splits prod.splits)
  have "map se_value (v_stats v) = map sq_base_stat (stat_rows d (b_id base))"
    by (simp add: s e)
  moreover have "\<forall>e \<in> set (v_stats v).
      se_percent e = max 5 (min (se_value e * 100 div 180) 100)
      \<and> 5 \<le> se_percent e \<and> se_percent e \<le> 100"
    by (auto simp: s e stat_percent_floor)
  ultimately show ?thesis using b by blast
qed

text \<open>Pikachu in the sample dataset: base stats 35 and 55 give 19 and 30 percent.\<close>
theorem stats_percent_floor_clamped_witness:
  "\<exists>v. get_pokemon_data exact_float_ops sample_db ''pikachu'' = Inr (Some v)
       \<and> map se_value (v_stats v) = [35, 55] \<and> map se_percent (v_stats v) = [19, 30]"
proof -
  have "map_sum id (map_option (\<lambda>v. (map se_value (v_stats v), map se_percent (v_stats v))))
      (get_pokemon_data exact_float_ops sample_db ''pikachu'') = Inr (Some ([35, 55], [19, 30]))"
    by code_simp
  then obtain v where v: "get_pokemon_data exact_float_ops sample_db ''pikachu'' = Inr (Some v)"
    and vals: "map se_value (v_stats v) = [35, 55]" "map se_percent (v_stats v) = [19, 30]"
    by (cases "get_pokemon_data exact_float_ops sample_db ''pikachu''") auto
  from stats_percent_floor_clamped [OF v] vals v show ?thesis
    by (intro exI [of _ v]) simp
qed

text \<open>
  A base stat of 10 is 5.56 percent of 180: the entry carries 5 where rounding to nearest,
  as the specification has it, gives 6.
\<close>
theorem stats_percent_round_counterexample:
  "se_percent (stat_entry_of sample_db
      \<lparr>sq_stat_id = 1, sq_stat_identifier = ''hp'', sq_stat_name = ''HP'', sq_base_stat = 10\<rparr>) = 5
   \<and> spec_percent 10 = 6"
  by code_simp

section \<open>Sprite reference\<close>




section \<open>Evolution conditions\<close>

text \<open>
  Claim C5, as the code has it: the condition string is the comma-separated concatenation
  of the clauses, in the fixed order (minimum level, used item, held item, the fixed
  happiness phrase, known move, time of day), of exactly the trigger fields that are
  present \<^emph>\<open>and truthy\<close>: a field holding 0 or the empty string counts as absent. Without
  any such field the trigger kind in title case is used, and without a trigger kind the
  empty string.
\<close>
theorem describe_evo_step_truthy:
  "describe_evo_step row = spec_condition (falsy_as_null row)"
proof -
  have t: "trigger_identifier (falsy_as_null row) = null_if_empty (trigger_identifier row)"
    by (simp add: falsy_as_null_def)
  show ?thesis
    unfolding describe_evo_step_def spec_condition_def Let_def evo_parts_spec t
    by (auto simp: null_if_empty_def or_empty_def split: option.splits)
qed

text \<open>
  A minimum level of 0 is present but yields no clause: the code falls back to the
  trigger kind where the specification's reading gives \<open>Level 0\<close>.
\<close>
theorem describe_evo_step_counterexample:
  "describe_evo_step level_zero_row = ''Level Up'' \<and> spec_condition level_zero_row = ''Level 0''"
  by code_simp

section \<open>Text fields\<close>

text \<open>
  Claim C10: in every composed view the species flavor text, the flavor text of every
  ability and the effect text of every move are strings (they are never NULL: a missing
  row or column gives the empty string) obtained from a stored text, or from the empty
  text, by replacing every newline and form feed by a space; none of them contains a
  newline or a form feed.
\<close>
theorem text_fields_without_breaks:
  assumes "get_pokemon_data fl d identifier = Inr (Some v)"
  shows "cleaned_from (sft_flavor_text ` set (pokemon_species_flavor_text d)) (v_flavor_text v)
       \<and> no_breaks (v_flavor_text v)
       \<and> (\<forall>a \<in> set (v_abilities v).
            cleaned_from (aft_flavor_text ` set (ability_flavor_text d)) (ab_flavor_text a)
            \<and> no_breaks (ab_flavor_text a))
       \<and> (\<forall>m \<in> set (v_moves v).
            cleaned_from (Option.these (mep_short_effect ` set (move_effect_prose d))) (mv_effect m)
            \<and> no_breaks (mv_effect m))"
proof -
  from assms obtain base where
    b: "get_pokemon_basic d identifier = Some base"
    and f: "v_flavor_text v = flavor_text_of d (b_species_id base)"
    and a: "v_abilities v = abilities_of d (b_id base)"
    and m: "v_moves v = moves_of d (b_id base)"
    by (rule get_pokemon_data_Some)
  have 1: "cleaned_from (sft_flavor_text ` set (pokemon_species_flavor_text d)) (v_flavor_text v)"
    unfolding f by (rule flavor_text_of_cleaned)
  have 2: "cleaned_from (aft_flavor_text ` set (ability_flavor_text d)) (ab_flavor_text x)"
    if "x \<in> set (v_abilities v)" for x
    using that unfolding a by (rule abilities_of_cleaned)
  have 3: "cleaned_from (Option.these (mep_short_effect ` set (move_effect_prose d))) (mv_effect x)"
    if "x \<in> set (v_moves v)" for x
    using that unfolding m by (rule moves_of_cleaned)
  show ?thesis
    using 1 2 3 cleaned_no_breaks [OF 1] cleaned_no_breaks [OF 2] cleaned_no_breaks [OF 3]
    by blast
qed

theorem text_fields_without_breaks_witness:
  "\<exists>v. get_pokemon_data exact_float_ops sample_db ''pikachu'' = Inr (Some v)
       \<and> (v_flavor_text v, map ab_flavor_text (v_abilities v), map mv_effect (v_moves v))
         = (''It stores electricity in its cheeks.'', [''Contact may paralyze.'', []],
            [''Lowers the Attack of the target.'', ''Has a chance to paralyze.'', []])
       \<and> no_breaks (v_flavor_text v)"
proof -
  have "map_sum id (map_option (\<lambda>v. (v_flavor_text v, map ab_flavor_text (v_abilities v),
           map mv_effect (v_moves v))))
      (get_pokemon_data exact_float_ops sample_db ''pikachu'')
      = Inr (Some (''It stores electricity in its cheeks.'', [''Contact may paralyze.'', []],
           [''Lowers the Attack of the target.'', ''Has a chance to paralyze.'', []]))"
    by code_simp
  then obtain v where v: "get_pokemon_data exact_float_ops sample_db ''pikachu'' = Inr (Some v)"
    and vals: "(v_flavor_text v, map ab_flavor_text (v_abilities v), map mv_effect (v_moves v))
         = (''It stores electricity in its cheeks.'', [''Contact may paralyze.'', []],
            [''Lowers the Attack of the target.'', ''Has a chance to paralyze.'', []])"
    by (rule evaluated_view)
  from text_fields_without_breaks [OF v] have "no_breaks (v_flavor_text v)"
    by (rule conjunct1 [OF conjunct2])
  with v vals show ?thesis
    by (intro exI [of _ v] conjI)
qed

section \<open>Move list\<close>

text \<open>
  Claim C6: the move list of a composed view is the formatted list of the rows of the
  move query; these rows are ordered by level and then by the move's identifier
  (lexicographically, by character code); every row comes from a move that the Form
  learns in the fixed context (version group 11, level-up), and every move learned in
  that context has a row. A move learned only by another method or in another version
  group has none.
\<close>
theorem moves_level_up_sorted:
  assumes "get_pokemon_data fl d identifier = Inr (Some v)"
  shows "\<exists>base. get_pokemon_basic d identifier = Some base
     \<and> v_moves v = map move_entry_of (move_rows d (b_id base))
     \<and> map mv_level (v_moves v) = map mq_level (move_rows d (b_id base))
     \<and> sorted (map (\<lambda>r. (mq_level r, mq_move_identifier r)) (move_rows d (b_id base)))
     \<and> (\<forall>r \<in> set (move_rows d (b_id base)).
           \<exists>pm \<in> set (pokemon_moves d). \<exists>m \<in> set (moves d).
             learned_in_context (b_id base) pm \<and> m_id m = pm_move_id pm
             \<and> mq_level r = pm_level pm \<and> mq_move_identifier r = m_identifier m)
     \<and> (\<forall>pm \<in> set (pokemon_moves d). \<forall>m \<in> set (moves d).
           learned_in_context (b_id base) pm \<and> m_id m = pm_move_id pm \<longrightarrow>
           (\<exists>r \<in> set (move_rows d (b_id base)).
              mq_level r = pm_level pm \<and> mq_move_identifier r = m_identifier m))"
proof -
  from assms obtain base where b: "get_pokemon_basic d identifier = Some base"
    and m: "v_moves v = moves_of d (b_id base)"
    by (rule get_pokemon_data_Some)
  let ?rows = "move_rows d (b_id base)"
  have 1: "v_moves v = map move_entry_of ?rows"
    by (simp add: m moves_of_def)
  have 2: "map mv_level (v_moves v) = map mq_level ?rows"
    by (simp add: 1 move_entry_of_def)
  have 3: "\<exists>pm \<in> set (pokemon_moves d). \<exists>m \<in> set (moves d).
             learned_in_context (b_id base) pm \<and> m_id m = pm_move_id pm
             \<and> mq_level r = pm_level pm \<and> mq_move_identifier r = m_identifier m"
    if "r \<in> set ?rows" for r
  proof -
    from that obtain pm m where "pm \<in> set (pokemon_moves d)" "learned_in_context (b_id base) pm"
      "m \<in> set (moves d)" "m_id m = pm_move_id pm" "r \<in> set (move_join d pm m)"
      unfolding set_move_rows by blast
    with move_join_key show ?thesis by blast
  qed
  have 4: "\<exists>r \<in> set ?rows. mq_level r = pm_level pm \<and> mq_move_identifier r = m_identifier m"
    if "pm \<in> set (pokemon_moves d)" "m \<in> set (moves d)"
      "learned_in_context (b_id base) pm" "m_id m = pm_move_id pm" for pm m
  proof -
    obtain r where r: "r \<in> set (move_join d pm m)"
      using move_join_ex by blast
    with that have "r \<in> set ?rows"
      unfolding set_move_rows by blast
    with move_join_key [OF r] show ?thesis by blast
  qed
  from b 1 2 sorted_move_rows 3 4 show ?thesis by blast
qed

text \<open>
  Pikachu in the sample dataset: Thunderbolt, learned by machine and in another version
  group only, is absent.
\<close>
theorem moves_level_up_sorted_witness:
  "\<exists>v. get_pokemon_data exact_float_ops sample_db ''pikachu'' = Inr (Some v)
       \<and> (map mv_level (v_moves v), map mv_name (v_moves v))
         = ([1, 1, 13], [''Growl'', ''Thunder Shock'', ''Quick Attack''])
       \<and> map mq_move_identifier (move_rows sample_db 25)
         = [''growl'', ''thunder-shock'', ''quick-attack'']"
proof -
  have "map_sum id (map_option (\<lambda>v. (map mv_level (v_moves v), map mv_name (v_moves v))))
      (get_pokemon_data exact_float_ops sample_db ''pikachu'')
      = Inr (Some ([1, 1, 13], [''Growl'', ''Thunder Shock'', ''Quick Attack'']))"
    by code_simp
  then obtain v where v: "get_pokemon_data exact_float_ops sample_db ''pikachu'' = Inr (Some v)"
    and vals: "(map mv_level (v_moves v), map mv_name (v_moves v))
         = ([1, 1, 13], [''Growl'', ''Thunder Shock'', ''Quick Attack''])"
    by (rule evaluated_view)
  have ids: "map mq_move_identifier (move_rows sample_db 25)
         = [''growl'', ''thunder-shock'', ''quick-attack'']"
    by code_simp
  from moves_level_up_sorted [OF v] v vals ids show ?thesis
    by (intro exI [of _ v] conjI)
qed

section \<open>Encounters\<close>

text \<open>
  Claim C7: the encounters of a composed view are grouped by version. The versions are
  exactly those of the raw (version, location) rows, each once, in ascending order of
  their names; the locations of a version are the first five of its distinct location
  names in ascending order, so they are distinct, sorted and at most five. Names are
  ordered as Python orders strings, by character code.
\<close>
theorem encounters_grouped_sorted_capped:
  assumes "get_pokemon_data fl d identifier = Inr (Some v)"
  shows "\<exists>base. get_pokemon_basic d identifier = Some base
     \<and> sorted (map enc_version (v_encounters v))
     \<and> distinct (map enc_version (v_encounters v))
     \<and> set (map enc_version (v_encounters v)) = fst ` set (encounter_rows d (b_id base))
     \<and> (\<forall>e \<in> set (v_encounters v).
           enc_locations e = take 5 (sorted_list_of_set
             (set (map snd (filter (\<lambda>r. fst r = enc_version e) (encounter_rows d (b_id base))))))
           \<and> sorted (enc_locations e) \<and> distinct (enc_locations e)
           \<and> length (enc_locations e) \<le> 5)"
proof -
  from assms obtain base where b: "get_pokemon_basic d identifier = Some base"
    and e: "v_encounters v = encounters_of d (b_id base)"
    by (rule get_pokemon_data_Some)
  have loc: "enc_locations x = take 5 (sorted_list_of_set
             (set (map snd (filter (\<lambda>r. fst r = enc_version x) (encounter_rows d (b_id base))))))
           \<and> sorted (enc_locations x) \<and> distinct (enc_locations x)
           \<and> length (enc_locations x) \<le> 5"
    if "x \<in> set (v_encounters v)" for x
  proof -
    from that have "enc_locations x = take 5 (sorted_list_of_set
             (set (map snd (filter (\<lambda>r. fst r = enc_version x) (encounter_rows d (b_id base))))))"
      unfolding e by (rule encounters_of_props(4))
    then show ?thesis
      by (simp del: set_map set_filter)
  qed
  from b loc encounters_of_props(1-3) [of d "b_id base"] show ?thesis
    unfolding e by blast
qed

text \<open>
  Pikachu in the sample dataset has eight raw rows: one location in Blue and six distinct
  locations in Red, of which the first five are listed.
\<close>
theorem encounters_grouped_sorted_capped_witness:
  "\<exists>v. get_pokemon_data exact_float_ops sample_db ''pikachu'' = Inr (Some v)
       \<and> (map enc_version (v_encounters v), map enc_locations (v_encounters v))
         = ([''Blue'', ''Red''],
            [[''Viridian Forest''],
             [''Cerulean Cave'', ''Power Plant'', ''Route 24'', ''Route 25'', ''Safari Zone'']])
       \<and> length (encounter_rows sample_db 25) = 8"
proof -
  have "map_sum id (map_option (\<lambda>v. (map enc_version (v_encounters v),
           map enc_locations (v_encounters v))))
      (get_pokemon_data exact_float_ops sample_db ''pikachu'')
      = Inr (Some ([''Blue'', ''Red''],
            [[''Viridian Forest''],
             [''Cerulean Cave'', ''Power Plant'', ''Route 24'', ''Route 25'', ''Safari Zone'']]))"
    by code_simp
  then obtain v where v: "get_pokemon_data exact_float_ops sample_db ''pikachu'' = Inr (Some v)"
    and vals: "(map enc_version (v_encounters v), map enc_locations (v_encounters v))
         = ([''Blue'', ''Red''],
            [[''Viridian Forest''],
             [''Cerulean Cave'', ''Power Plant'', ''Route 24'', ''Route 25'', ''Safari Zone'']])"
    by (rule evaluated_view)
  have rows: "length (encounter_rows sample_db 25) = 8"
    by code_simp
  from encounters_grouped_sorted_capped [OF v] v vals rows show ?thesis
    by (intro exI [of _ v] conjI)
qed

section \<open>Navigation\<close>

text \<open>
  Claim C8: for two composed views of the same dataset, the first of a Species that has a
  row in \<open>pokemon_species\<close>: if the second view is that of the first view's previous
  species, its next species is the first view's species, and symmetrically with previous
  and next exchanged. The previous (next) entry of a view is the nearest named species
  with a strictly smaller (larger) id, and is null exactly when there is none.
\<close>
theorem nav_round_trip:
  assumes "get_pokemon_data fl d i1 = Inr (Some v1)"
    and "get_pokemon_data fl d i2 = Inr (Some v2)"
    and "v_dex v1 \<in> ps_id ` set (pokemon_species d)"
  shows "(\<forall>p. v_nav_prev v1 = Some p \<and> v_dex v2 = nav_dex p \<longrightarrow>
            (\<exists>n. v_nav_next v2 = Some n \<and> nav_dex n = v_dex v1))
       \<and> (\<forall>n. v_nav_next v1 = Some n \<and> v_dex v2 = nav_dex n \<longrightarrow>
            (\<exists>p. v_nav_prev v2 = Some p \<and> nav_dex p = v_dex v1))
       \<and> nearest_below d (v_dex v1) (v_nav_prev v1)
       \<and> nearest_above d (v_dex v1) (v_nav_next v1)"
proof -
  from assms(1) obtain b1 where b1: "get_pokemon_basic d i1 = Some b1"
    and d1: "v_dex v1 = b_species_id b1"
    and p1: "v_nav_prev v1 = nav_prev_of d (b_species_id b1)"
    and n1: "v_nav_next v1 = nav_next_of d (b_species_id b1)"
    by (rule get_pokemon_data_Some)
  from assms(2) obtain b2 where b2: "get_pokemon_basic d i2 = Some b2"
    and d2: "v_dex v2 = b_species_id b2"
    and p2: "v_nav_prev v2 = nav_prev_of d (b_species_id b2)"
    and n2: "v_nav_next v2 = nav_next_of d (b_species_id b2)"
    by (rule get_pokemon_data_Some)
  have below1: "nearest_below d (v_dex v1) (v_nav_prev v1)"
    unfolding p1 d1 by (rule nav_prev_of_nearest)
  have above1: "nearest_above d (v_dex v1) (v_nav_next v1)"
    unfolding n1 d1 by (rule nav_next_of_nearest)
  have below2: "nearest_below d (v_dex v2) (v_nav_prev v2)"
    unfolding p2 d2 by (rule nav_prev_of_nearest)
  have above2: "nearest_above d (v_dex v2) (v_nav_next v2)"
    unfolding n2 d2 by (rule nav_next_of_nearest)
  from view_species_named [OF assms(1) assms(3)]
  obtain q where q: "q \<in> set (named_species d)" "nav_dex q = v_dex v1"
    by blast
  have fwd: "\<exists>n. v_nav_next v2 = Some n \<and> nav_dex n = v_dex v1"
    if "v_nav_prev v1 = Some p" "v_dex v2 = nav_dex p" for p
  proof -
    from below1 that(1) have p: "nav_dex p < v_dex v1"
      and pmax: "\<forall>r \<in> set (named_species d). nav_dex r < v_dex v1 \<longrightarrow> nav_dex r \<le> nav_dex p"
      by (simp_all add: nearest_below_def)
    show ?thesis
    proof (cases "v_nav_next v2")
      case None
      with above2 q p that(2) show ?thesis
        by (auto simp: nearest_above_def)
    next
      case (Some n)
      with above2 have n: "n \<in> set (named_species d)" "v_dex v2 < nav_dex n"
        and nmin: "\<forall>r \<in> set (named_species d). v_dex v2 < nav_dex r \<longrightarrow> nav_dex n \<le> nav_dex r"
        by (simp_all add: nearest_above_def)
      from nmin q p that(2) have "nav_dex n \<le> v_dex v1" by auto
      moreover have "\<not> nav_dex n < v_dex v1"
        using pmax n that(2) by auto
      ultimately show ?thesis using Some by auto
    qed
  qed
  have bwd: "\<exists>p. v_nav_prev v2 = Some p \<and> nav_dex p = v_dex v1"
    if "v_nav_next v1 = Some n" "v_dex v2 = nav_dex n" for n
  proof -
    from above1 that(1) have n: "v_dex v1 < nav_dex n"
      and nmin: "\<forall>r \<in> set (named_species d). v_dex v1 < nav_dex r \<longrightarrow> nav_dex n \<le> nav_dex r"
      by (simp_all add: nearest_above_def)
    show ?thesis
    proof (cases "v_nav_prev v2")
      case None
      with below2 q n that(2) show ?thesis
        by (auto simp: nearest_below_def)
    next
      case (Some p)
      with below2 have p: "p \<in> set (named_species d)" "nav_dex p < v_dex v2"
        and pmax: "\<forall>r \<in> set (named_species d). nav_dex r < v_dex v2 \<longrightarrow> nav_dex r \<le> nav_dex p"
        by (simp_all add: nearest_below_def)
      from pmax q n that(2) have "v_dex v1 \<le> nav_dex p" by auto
      moreover have "\<not> v_dex v1 < nav_dex p"
        using nmin p that(2) by auto
      ultimately show ?thesis using Some by auto
    qed
  qed
  from fwd bwd below1 above1 show ?thesis by blast
qed

text \<open>
  Raichu (26) and Pikachu (25) in the sample dataset: the previous species of Raichu is
  Pikachu, whose next species is Raichu.
\<close>
theorem nav_round_trip_witness:
  "\<exists>v1 v2. get_pokemon_data exact_float_ops sample_db ''raichu'' = Inr (Some v1)
     \<and> get_pokemon_data exact_float_ops sample_db ''pikachu'' = Inr (Some v2)
     \<and> v_dex v1 \<in> ps_id ` set (pokemon_species sample_db)
     \<and> (v_dex v1, map_option nav_dex (v_nav_prev v1), map_option nav_dex (v_nav_next v1))
         = (26, Some 25, Some 172)
     \<and> (v_dex v2, map_option nav_dex (v_nav_prev v2), map_option nav_dex (v_nav_next v2))
         = (25, None, Some 26)"
proof -
  have "map_sum id (map_option (\<lambda>v. (v_dex v, map_option nav_dex (v_nav_prev v),
          map_option nav_dex (v_nav_next v))))
      (get_pokemon_data exact_float_ops sample_db ''raichu'') = Inr (Some (26, Some 25, Some 172))"
    by code_simp
  then obtain v1 where v1: "get_pokemon_data exact_float_ops sample_db ''raichu'' = Inr (Some v1)"
    and e1: "(v_dex v1, map_option nav_dex (v_nav_prev v1), map_option nav_dex (v_nav_next v1))
         = (26, Some 25, Some 172)"
    by (rule evaluated_view)
  have "map_sum id (map_option (\<lambda>v. (v_dex v, map_option nav_dex (v_nav_prev v),
          map_option nav_dex (v_nav_next v))))
      (get_pokemon_data exact_float_ops sample_db ''pikachu'') = Inr (Some (25, None, Some 26))"
    by code_simp
  then obtain v2 where v2: "get_pokemon_data exact_float_ops sample_db ''pikachu'' = Inr (Some v2)"
    and e2: "(v_dex v2, map_option nav_dex (v_nav_prev v2), map_option nav_dex (v_nav_next v2))
         = (25, None, Some 26)"
    by (rule evaluated_view)
  have "(26::int) \<in> ps_id ` set (pokemon_species sample_db)"
    by code_simp
  with e1 have s: "v_dex v1 \<in> ps_id ` set (pokemon_species sample_db)"
    by simp
  from nav_round_trip [OF v1 v2 s] v1 v2 s e1 e2 show ?thesis
    by (intro exI [of _ v1] exI [of _ v2] conjI)
qed

section \<open>Type effectiveness\<close>

text \<open>
  Where every efficacy row against the defending types names an attacking type that has a
  localized name, the computation returns the three lists, and they classify every
  attacking type by its rounded multiplier (the product of its damage factors against the
  defending types, as fractions of 100, rounded by \<open>round(x, 2)\<close>): exactly 0 puts it in
  the immune list, otherwise above 1.01 in the weak list, otherwise below 0.99 in the
  resist list, and anything else in no list. The weak list is then sorted by multiplier
  descending, the resist list ascending. The entries of the three lists are pairwise
  different and the lists together hold at most one entry per attacking type. This holds
  whatever the float operations are.
\<close>
lemma type_matchups_classified:
  assumes "types_rows \<noteq> []" and "attackers_named d types_rows"
  shows "\<exists>tm. compute_type_matchups fl d types_rows = Inr tm
     \<and> immune tm = map (entry_for fl d types_rows)
         (filter (\<lambda>a. rounded_multiplier fl d types_rows a = 0) (attack_types d))
     \<and> weak tm = sort_key (\<lambda>x. - me_multiplier x) (map (entry_for fl d types_rows)
         (filter (\<lambda>a. rounded_multiplier fl d types_rows a > float_1_01) (attack_types d)))
     \<and> resist tm = sort_key me_multiplier (map (entry_for fl d types_rows)
         (filter (\<lambda>a. rounded_multiplier fl d types_rows a < float_0_99
                      \<and> rounded_multiplier fl d types_rows a \<noteq> 0) (attack_types d)))
     \<and> (\<forall>e \<in> set (immune tm). me_multiplier e = 0)
     \<and> (\<forall>e \<in> set (weak tm). me_multiplier e > float_1_01)
     \<and> (\<forall>e \<in> set (resist tm). me_multiplier e < float_0_99 \<and> me_multiplier e \<noteq> 0)
     \<and> set (weak tm) \<inter> set (resist tm) = {}
     \<and> set (weak tm) \<inter> set (immune tm) = {}
     \<and> set (resist tm) \<inter> set (immune tm) = {}
     \<and> length (weak tm) + length (resist tm) + length (immune tm) \<le> length (attack_types d)"
proof -
  let ?rm = "rounded_multiplier fl d types_rows"
  let ?E = "entry_for fl d types_rows"
  let ?W = "filter (\<lambda>a. ?rm a > float_1_01) (attack_types d)"
  let ?R = "filter (\<lambda>a. ?rm a < float_0_99 \<and> ?rm a \<noteq> 0) (attack_types d)"
  let ?I = "filter (\<lambda>a. ?rm a = 0) (attack_types d)"
  define tm where "tm = \<lparr>weak = sort_key (\<lambda>x. - me_multiplier x) (map ?E ?W),
      resist = sort_key me_multiplier (map ?E ?R), immune = map ?E ?I\<rparr>"
  have c: "compute_type_matchups fl d types_rows = Inr tm"
    unfolding tm_def using assms by (rule compute_type_matchups_classified)
  have i: "immune tm = map ?E ?I" and w: "weak tm = sort_key (\<lambda>x. - me_multiplier x) (map ?E ?W)"
    and r: "resist tm = sort_key me_multiplier (map ?E ?R)"
    by (simp_all add: tm_def)
  have mi: "\<forall>e \<in> set (immune tm). me_multiplier e = 0"
    unfolding i by (auto simp: entry_for_multiplier)
  have mw: "\<forall>e \<in> set (weak tm). me_multiplier e > float_1_01"
    unfolding w by (auto simp: entry_for_multiplier)
  have mr: "\<forall>e \<in> set (resist tm). me_multiplier e < float_0_99 \<and> me_multiplier e \<noteq> 0"
    unfolding r by (auto simp: entry_for_multiplier)
  have d1: "set (weak tm) \<inter> set (resist tm) = {}"
    using mw mr float_thresholds by fastforce
  have d2: "set (weak tm) \<inter> set (immune tm) = {}"
    using mw mi float_thresholds by fastforce
  have d3: "set (resist tm) \<inter> set (immune tm) = {}"
    using mr mi by fastforce
  have "length ?W + length ?R + length ?I \<le> length (attack_types d)"
    using float_thresholds by (intro exclusive_filters_length) auto
  then have len: "length (weak tm) + length (resist tm) + length (immune tm) \<le> length (attack_types d)"
    unfolding i w r by simp
  from c i w r mi mw mr d1 d2 d3 len show ?thesis
    by blast
qed

text \<open>
  Electric and Flying in the sample dataset: Ice is doubled by Flying alone, Flying is
  halved by Electric alone, Ground is doubled by Electric and annulled by Flying, and
  Electric, halved and doubled, is neutral and in no list.
\<close>
lemma type_matchups_classified_example:
  "attackers_named sample_db
     [\<lparr>t_id = 13, t_identifier = ''electric'', t_name = ''Electric''\<rparr>,
      \<lparr>t_id = 3, t_identifier = ''flying'', t_name = ''Flying''\<rparr>]
   \<and> compute_type_matchups exact_float_ops sample_db
     [\<lparr>t_id = 13, t_identifier = ''electric'', t_name = ''Electric''\<rparr>,
      \<lparr>t_id = 3, t_identifier = ''flying'', t_name = ''Flying''\<rparr>]
   = Inr \<lparr>weak = [\<lparr>me_identifier = ''ice'', me_name = ''Ice'', me_multiplier = 2,
                    me_label = times_sign @ ''2''\<rparr>],
          resist = [\<lparr>me_identifier = ''flying'', me_name = ''Flying'', me_multiplier = 1 / 2,
                      me_label = times_sign @ ''0.5''\<rparr>],
          immune = [\<lparr>me_identifier = ''ground'', me_name = ''Ground'', me_multiplier = 0,
                      me_label = times_sign @ ''0''\<rparr>]\<rparr>"
proof -
  let ?ts = "[\<lparr>t_id = 13, t_identifier = ''electric'', t_name = ''Electric''\<rparr>,
      \<lparr>t_id = 3, t_identifier = ''flying'', t_name = ''Flying''\<rparr>]"
  have n: "?ts \<noteq> []" by simp
  have a: "attackers_named sample_db ?ts" by code_simp
  have e: "compute_type_matchups exact_float_ops sample_db ?ts
   = Inr \<lparr>weak = [\<lparr>me_identifier = ''ice'', me_name = ''Ice'', me_multiplier = 2,
                    me_label = times_sign @ ''2''\<rparr>],
          resist = [\<lparr>me_identifier = ''flying'', me_name = ''Flying'', me_multiplier = 1 / 2,
                      me_label = times_sign @ ''0.5''\<rparr>],
          immune = [\<lparr>me_identifier = ''ground'', me_name = ''Ground'', me_multiplier = 0,
                      me_label = times_sign @ ''0''\<rparr>]\<rparr>"
    by code_simp
  from type_matchups_classified [OF n a, of exact_float_ops] a e show ?thesis
    by (intro conjI)
qed

text \<open>
  Claim C1 (for every list of one or two defending types the computation classifies each
  attacking type by its rounded multiplier into at most one of the three lists) does not
  hold of the code on every dataset. In \<open>unnamed_type_db\<close> the Ground type has no
  localized name, so it is not among the attacking types and has no entry in \<open>factors\<close>,
  but its efficacy row against Electric is in the table: for the single defending type
  Electric the statement \<open>factors[atk] *= ...\<close> raises \<open>KeyError\<close> and no list is
  returned.
\<close>
theorem type_matchups_key_error:
  "map t_id (attack_types unnamed_type_db) = [1, 2, 3, 8, 13, 15]
   \<and> map damage_type_id (efficacy_rows unnamed_type_db [13]) = [3, 5, 13]
   \<and> compute_type_matchups exact_float_ops unnamed_type_db
        [\<lparr>t_id = 13, t_identifier = ''electric'', t_name = ''Electric''\<rparr>] = Inl KeyError"
  by code_simp

section \<open>Not found, and composition with missing data\<close>

text \<open>
  If no Form row matches the lower-cased identifier, or the matched Form has no stat rows,
  the composer returns None and does not raise. Where each efficacy row against the Form's
  types names an attacking type that has a localized name, composition succeeds; a missing
  species row then leaves growth rate, capture rate, base happiness, generation and region
  null and the evolution list empty, and a missing flavor-text row leaves the flavor text
  empty.
\<close>
lemma not_found_or_composed:
  "(get_pokemon_basic d identifier = None \<longrightarrow>
      get_pokemon_data fl d identifier = Inr None)
   \<and> (\<forall>base. get_pokemon_basic d identifier = Some base \<and> stat_rows d (b_id base) = [] \<longrightarrow>
        get_pokemon_data fl d identifier = Inr None)
   \<and> (\<forall>base. get_pokemon_basic d identifier = Some base \<and> stat_rows d (b_id base) \<noteq> []
          \<and> attackers_named d (type_rows d (b_id base)) \<longrightarrow>
        (\<exists>v. get_pokemon_data fl d identifier = Inr (Some v)
           \<and> (species_row_of d (b_species_id base) = None \<longrightarrow>
                v_growth_rate v = None \<and> v_capture_rate v = None \<and> v_base_happiness v = None
                \<and> v_generation v = None \<and> v_region v = None \<and> v_evolutions v = [])
           \<and> (filter (\<lambda>r. sft_species_id r = b_species_id base \<and> sft_language_id r = LANG_EN)
                 (pokemon_species_flavor_text d) = [] \<longrightarrow> v_flavor_text v = [])))"
proof (intro conjI allI impI)
  assume "get_pokemon_basic d identifier = None"
  then show "get_pokemon_data fl d identifier = Inr None"
    by (simp add: get_pokemon_data_def)
next
  fix base
  assume "get_pokemon_basic d identifier = Some base \<and> stat_rows d (b_id base) = []"
  then show "get_pokemon_data fl d identifier = Inr None"
    by (simp add: get_pokemon_data_def)
next
  fix base
  assume a: "get_pokemon_basic d identifier = Some base \<and> stat_rows d (b_id base) \<noteq> []
          \<and> attackers_named d (type_rows d (b_id base))"
  then obtain tm where tm: "compute_type_matchups fl d (type_rows d (b_id base)) = Inr tm"
    using compute_type_matchups_Inr by blast
  from a tm obtain v where v: "get_pokemon_data fl d identifier = Inr (Some v)"
    using get_pokemon_data_composes by blast
  from a have b: "get_pokemon_basic d identifier = Some base" by simp
  from v obtain base' where "get_pokemon_basic d identifier = Some base'"
    and "v_flavor_text v = flavor_text_of d (b_species_id base')"
    by (rule get_pokemon_data_Some)
  with b have ft: "v_flavor_text v = flavor_text_of d (b_species_id base)"
    by simp
  have "species_row_of d (b_species_id base) = None \<longrightarrow>
                v_growth_rate v = None \<and> v_capture_rate v = None \<and> v_base_happiness v = None
                \<and> v_generation v = None \<and> v_region v = None \<and> v_evolutions v = []"
    using get_pokemon_data_no_species [OF v b] by blast
  moreover have "filter (\<lambda>r. sft_species_id r = b_species_id base \<and> sft_language_id r = LANG_EN)
                 (pokemon_species_flavor_text d) = [] \<longrightarrow> v_flavor_text v = []"
    using ft flavor_text_of_missing by simp
  ultimately show "\<exists>v. get_pokemon_data fl d identifier = Inr (Some v)
           \<and> (species_row_of d (b_species_id base) = None \<longrightarrow>
                v_growth_rate v = None \<and> v_capture_rate v = None \<and> v_base_happiness v = None
                \<and> v_generation v = None \<and> v_region v = None \<and> v_evolutions v = [])
           \<and> (filter (\<lambda>r. sft_species_id r = b_species_id base \<and> sft_language_id r = LANG_EN)
                 (pokemon_species_flavor_text d) = [] \<longrightarrow> v_flavor_text v = [])"
    using v by (intro exI [of _ v] conjI)
qed

text \<open>
  An unknown identifier; a Form without stat rows; Pikachu, composed with its type
  matchups; and Unown, composed although it has no flavor text and no type rows.
\<close>
lemma not_found_or_composed_example:
  "get_pokemon_basic sample_db ''qwertyzzz'' = None
   \<and> get_pokemon_data exact_float_ops sample_db ''qwertyzzz'' = Inr None
   \<and> map_option b_id (get_pokemon_basic sample_db ''Pikachu-Rock-Star'') = Some 10080
   \<and> stat_rows sample_db 10080 = []
   \<and> get_pokemon_data exact_float_ops sample_db ''Pikachu-Rock-Star'' = Inr None
   \<and> map_option b_id (get_pokemon_basic sample_db ''pikachu'') = Some 25
   \<and> map t_id (type_rows sample_db 25) = [13]
   \<and> attackers_named sample_db (type_rows sample_db 25)
   \<and> (\<exists>v. get_pokemon_data exact_float_ops sample_db ''pikachu'' = Inr (Some v))
   \<and> map_option b_id (get_pokemon_basic unown_db ''unown'') = Some 201
   \<and> length (stat_rows unown_db 201) = 1
   \<and> (\<exists>v. get_pokemon_data exact_float_ops unown_db ''unown'' = Inr (Some v)
          \<and> v_flavor_text v = [])"
proof -
  have q: "get_pokemon_basic sample_db ''qwertyzzz'' = None"
    by code_simp
  have r: "get_pokemon_basic sample_db ''Pikachu-Rock-Star''
      = Some \<lparr>b_id = 10080, b_identifier = ''pikachu-rock-star'', b_species_id = 25,
               b_display_name = ''Pikachu Rock Star''\<rparr>"
    by code_simp
  have rs: "stat_rows sample_db 10080 = []"
    by code_simp
  have k: "get_pokemon_basic sample_db ''pikachu''
      = Some \<lparr>b_id = 25, b_identifier = ''pikachu'', b_species_id = 25,
               b_display_name = ''Pikachu''\<rparr>"
    by code_simp
  have ks: "length (stat_rows sample_db 25) = 2"
    by code_simp
  have kt: "map t_id (type_rows sample_db 25) = [13]"
    by code_simp
  have ka: "attackers_named sample_db (type_rows sample_db 25)"
    by code_simp
  have u: "get_pokemon_basic unown_db ''unown''
      = Some \<lparr>b_id = 201, b_identifier = ''unown'', b_species_id = 201, b_display_name = ''Unown''\<rparr>"
    by code_simp
  have us: "length (stat_rows unown_db 201) = 1"
    by code_simp
  have ua: "attackers_named unown_db (type_rows unown_db 201)"
    by code_simp
  have uf: "filter (\<lambda>r. sft_species_id r = 201 \<and> sft_language_id r = LANG_EN)
      (pokemon_species_flavor_text unown_db) = []"
    by code_simp
  note t1 = not_found_or_composed [of sample_db "''qwertyzzz''" exact_float_ops]
  note t2 = not_found_or_composed [of sample_db "''Pikachu-Rock-Star''" exact_float_ops]
  note t3 = not_found_or_composed [of sample_db "''pikachu''" exact_float_ops]
  note t4 = not_found_or_composed [of unown_db "''unown''" exact_float_ops]
  from t1 q have 1: "get_pokemon_data exact_float_ops sample_db ''qwertyzzz'' = Inr None"
    by blast
  from t2 r rs have 2: "get_pokemon_data exact_float_ops sample_db ''Pikachu-Rock-Star'' = Inr None"
    by simp
  from ks have "stat_rows sample_db 25 \<noteq> []"
    by auto
  with t3 k ka have 3: "\<exists>v. get_pokemon_data exact_float_ops sample_db ''pikachu'' = Inr (Some v)"
    by simp blast
  from us have "stat_rows unown_db 201 \<noteq> []"
    by auto
  with t4 u ua uf have 4: "\<exists>v. get_pokemon_data exact_float_ops unown_db ''unown'' = Inr (Some v)
          \<and> v_flavor_text v = []"
    by simp blast
  from q 1 r rs 2 k kt ka 3 u us 4 show ?thesis
    by simp
qed

text \<open>
  Claim C4 (the composer returns None for an unknown Form or a Form without stat rows, and
  in every other data-availability situation composes the view with the missing field
  empty or null) does not hold of the code on every dataset. In \<open>unnamed_type_db\<close> the
  localized name of the Ground type is missing while its efficacy row against Electric is
  in the table: Pikachu is found and has its stat rows, but the type-effectiveness
  computation raises \<open>KeyError\<close> at \<open>factors[atk] *= ...\<close> and no view is composed.
\<close>
theorem composition_key_error:
  "map_option b_id (get_pokemon_basic unnamed_type_db ''pikachu'') = Some 25
   \<and> length (stat_rows unnamed_type_db 25) = 2
   \<and> map t_id (type_rows unnamed_type_db 25) = [13]
   \<and> get_pokemon_data exact_float_ops unnamed_type_db ''pikachu'' = Inl KeyError"
  by code_simp

section \<open>Sibling forms\<close>

text \<open>
  Where the Forms of the Species join without fan-out (each Form has at most one
  \<open>pokemon_forms\<close> row with at most one localized name, and the Species one localized
  name), the forms list of a composed view is as specified: the list of all Forms under
  the same Species in the order of their ids, each with its slug, its joined display name
  and its default flag, when the Species has two or more Forms, and the empty list when
  the Species has only one Form.
\<close>
lemma sibling_forms_without_fan_out:
  assumes "get_pokemon_data fl d identifier = Inr (Some v)"
    and "forms_unambiguous d (v_dex v)"
  shows "v_forms v = (if length (species_forms d (v_dex v)) \<le> 1 then []
                      else form_rows d (v_dex v))
       \<and> map fm_identifier (form_rows d (v_dex v)) = map pk_identifier (species_forms d (v_dex v))
       \<and> map fm_is_default (form_rows d (v_dex v))
           = map (\<lambda>p. pk_is_default p \<noteq> 0) (species_forms d (v_dex v))
       \<and> list_all2 (\<lambda>e p. form_join d p = [e]) (form_rows d (v_dex v)) (species_forms d (v_dex v))"
proof -
  from assms(1) obtain base where b: "get_pokemon_basic d identifier = Some base"
    and s: "v_dex v = b_species_id base"
    and f: "v_forms v = forms_of d (b_species_id base)"
    by (rule get_pokemon_data_Some)
  from get_pokemon_basic_named [OF b] obtain psn where
    n: "psn \<in> set (pokemon_species_names d)" "nm_id psn = v_dex v" "nm_lang psn = LANG_EN"
    unfolding s by blast
  note r = form_rows_unambiguous [OF assms(2) n]
  from r have "length (form_rows d (v_dex v)) = length (species_forms d (v_dex v))"
    by simp
  then have "v_forms v = (if length (species_forms d (v_dex v)) \<le> 1 then []
                      else form_rows d (v_dex v))"
    by (simp add: f s forms_of_def Let_def)
  with r show ?thesis by simp
qed

text \<open>
  In the sample dataset Pikachu has two Forms, both listed, and Raichu has one, so its
  list is empty.
\<close>
lemma sibling_forms_without_fan_out_example:
  "forms_unambiguous sample_db 25 \<and> forms_unambiguous sample_db 26
   \<and> (\<exists>v. get_pokemon_data exact_float_ops sample_db ''pikachu'' = Inr (Some v)
          \<and> (v_dex v, map pk_identifier (species_forms sample_db 25), v_forms v)
            = (25, [''pikachu'', ''pikachu-rock-star''],
               [\<lparr>fm_identifier = ''pikachu'', fm_name = ''Pikachu'', fm_is_default = True\<rparr>,
                \<lparr>fm_identifier = ''pikachu-rock-star'', fm_name = ''Pikachu Rock Star'',
                 fm_is_default = False\<rparr>]))
   \<and> (\<exists>v. get_pokemon_data exact_float_ops sample_db ''raichu'' = Inr (Some v)
          \<and> (v_dex v, map pk_identifier (species_forms sample_db 26), v_forms v)
            = (26, [''raichu''], []))"
proof -
  have u1: "forms_unambiguous sample_db 25" and u2: "forms_unambiguous sample_db 26"
    by code_simp+
  have "map_sum id (map_option (\<lambda>v. (v_dex v, map pk_identifier (species_forms sample_db 25),
          v_forms v)))
      (get_pokemon_data exact_float_ops sample_db ''pikachu'')
      = Inr (Some (25, [''pikachu'', ''pikachu-rock-star''],
               [\<lparr>fm_identifier = ''pikachu'', fm_name = ''Pikachu'', fm_is_default = True\<rparr>,
                \<lparr>fm_identifier = ''pikachu-rock-star'', fm_name = ''Pikachu Rock Star'',
                 fm_is_default = False\<rparr>]))"
    by code_simp
  then obtain v1 where v1: "get_pokemon_data exact_float_ops sample_db ''pikachu'' = Inr (Some v1)"
    and e1: "(v_dex v1, map pk_identifier (species_forms sample_db 25), v_forms v1)
            = (25, [''pikachu'', ''pikachu-rock-star''],
               [\<lparr>fm_identifier = ''pikachu'', fm_name = ''Pikachu'', fm_is_default = True\<rparr>,
                \<lparr>fm_identifier = ''pikachu-rock-star'', fm_name = ''Pikachu Rock Star'',
                 fm_is_default = False\<rparr>])"
    by (rule evaluated_view)
  have "map_sum id (map_option (\<lambda>v. (v_dex v, map pk_identifier (species_forms sample_db 26),
          v_forms v)))
      (get_pokemon_data exact_float_ops sample_db ''raichu'')
      = Inr (Some (26, [''raichu''], []))"
    by code_simp
  then obtain v2 where v2: "get_pokemon_data exact_float_ops sample_db ''raichu'' = Inr (Some v2)"
    and e2: "(v_dex v2, map pk_identifier (species_forms sample_db 26), v_forms v2)
            = (26, [''raichu''], [])"
    by (rule evaluated_view)
  from e1 u1 have h1: "forms_unambiguous sample_db (v_dex v1)" by simp
  from e2 u2 have h2: "forms_unambiguous sample_db (v_dex v2)" by simp
  note t1 = sibling_forms_without_fan_out [OF v1 h1]
  note t2 = sibling_forms_without_fan_out [OF v2 h2]
  have 1: "\<exists>v. get_pokemon_data exact_float_ops sample_db ''pikachu'' = Inr (Some v)
          \<and> (v_dex v, map pk_identifier (species_forms sample_db 25), v_forms v)
            = (25, [''pikachu'', ''pikachu-rock-star''],
               [\<lparr>fm_identifier = ''pikachu'', fm_name = ''Pikachu'', fm_is_default = True\<rparr>,
                \<lparr>fm_identifier = ''pikachu-rock-star'', fm_name = ''Pikachu Rock Star'',
                 fm_is_default = False\<rparr>])"
    using t1 v1 e1 by (intro exI [of _ v1] conjI)
  have 2: "\<exists>v. get_pokemon_data exact_float_ops sample_db ''raichu'' = Inr (Some v)
          \<and> (v_dex v, map pk_identifier (species_forms sample_db 26), v_forms v)
            = (26, [''raichu''], [])"
    using t2 v2 e2 by (intro exI [of _ v2] conjI)
  from u1 u2 1 2 show ?thesis
    by (intro conjI)
qed

text \<open>
  Claim C9 (the forms list is the list of all Forms under the same Species when there are
  two or more, and empty when the Species has only one Form) does not hold of the code.
  Unown is the only Form of its Species but has two rows in \<open>pokemon_forms\<close>: the forms
  query returns one row per joined \<open>pokemon_forms\<close> row, so the list holds the slug
  \<open>unown\<close> twice and is not suppressed.
\<close>
theorem sibling_forms_fan_out:
  "map pk_identifier (species_forms unown_db 201) = [''unown'']
   \<and> map_sum id (map_option (map fm_identifier \<circ> v_forms))
       (get_pokemon_data exact_float_ops unown_db ''unown'') = Inr (Some [''unown'', ''unown''])"
  by code_simp

end
